theory Spec2Isabelle
  imports Complex_Main
begin

section \<open>The plotting helpers of the variational auto-encoder example (vae\_plots)\<close>

text \<open>
  The module \<open>vae_plots\<close> holds six functions: \<open>plot_conditional_samples_ssvae\<close>,
  \<open>plot_llk\<close>, \<open>plot_vae_samples\<close>, \<open>mnist_test_tsne\<close>, \<open>mnist_test_tsne_ssvae\<close> and
  \<open>plot_tsne\<close>. Each is a straight sequence of calls into torch, numpy, pandas, seaborn,
  matplotlib, scikit-learn and visdom. The embedding below keeps the control flow, the
  constants and the order of the calls of each function. What the libraries do is written
  out only as far as the functions depend on it:
  \<^item> an exception is a value \<open>Inl e\<close>; a function stops at the first one and hands it on;
  \<^item> the world is passed explicitly: the files below the working directory, the log of
    the calls issued to the visdom session and of the figures saved, and the ambient
    state of the collaborators (random number generators and the like);
  \<^item> the trained models, the encoders, the dimensionality reduction and the visdom session
    are parameters.
\<close>

subsection \<open>Exceptions, tensors\<close>

datatype error =
    IndexError
  | RuntimeError
  | AttributeError
  | TypeError
  | FileNotFoundError
  | FileExistsError
  | NotADirectoryError
  | IsADirectoryError
  | CollaboratorError string

text \<open>
  A tensor or array: its shape and its elements in row-major order. For the arrays that
  torch and numpy build, the number of elements is the product of the shape.
\<close>

record tensor =
  shape :: "nat list"
  elems :: "real list"

definition numel :: "'a tensor_scheme \<Rightarrow> nat" where
  "numel t = length (elems t)"

text \<open>\<open>torch.zeros(dims)\<close>.\<close>

definition zeros :: "nat list \<Rightarrow> tensor" where
  "zeros dims = \<lparr>shape = dims, elems = replicate (prod_list dims) 0\<rparr>"

text \<open>
  A torch tensor as a model returns it has a layout as well: the stride of each dimension,
  in elements. A tensor that torch allocates itself is laid out row by row.
\<close>

record strided = tensor +
  strides :: "nat list"

fun contiguous_strides :: "nat list \<Rightarrow> nat list" where
  "contiguous_strides [] = []"
| "contiguous_strides (d # ds) = prod_list (map (\<lambda>n. max n 1) ds) # contiguous_strides ds"

text \<open>
  \<open>t.view(dims)\<close> gives the same elements under another shape without copying them, so
  the new dimensions must regroup the old ones the way they lie in memory. torch decides
  this from the sizes and strides (\<open>computeStride\<close>): going from the last dimension to the
  first, it collects the old dimensions into chunks that are contiguous among themselves,
  and each chunk must be filled exactly by the next new dimensions, which take their
  strides from it. The lists are in reverse order of the dimensions here; \<open>acc\<close> collects
  the new strides.
\<close>

fun take_view :: "nat \<Rightarrow> nat \<Rightarrow> nat \<Rightarrow> nat list \<Rightarrow> nat list \<Rightarrow> nat \<times> nat list \<times> nat list" where
  "take_view view_numel tensor_numel base [] acc = (view_numel, [], acc)"
| "take_view view_numel tensor_numel base (d # ds) acc =
     (if view_numel < tensor_numel \<or> d = 1
      then take_view (view_numel * d) tensor_numel base ds ((view_numel * base) # acc)
      else (view_numel, d # ds, acc))"

fun chunks :: "(nat \<times> nat) list \<Rightarrow> nat \<Rightarrow> nat \<Rightarrow> nat \<Rightarrow> nat list \<Rightarrow> nat list \<Rightarrow> nat list option" where
  "chunks [] base tensor_numel view_numel ds acc = (if ds = [] then Some acc else None)"
| "chunks ((n, st) # rest) base tensor_numel view_numel ds acc =
     (let tensor_numel = tensor_numel * n in
      if rest = [] \<or> (fst (hd rest) \<noteq> 1 \<and> snd (hd rest) \<noteq> tensor_numel * base)
      then (case take_view view_numel tensor_numel base ds acc of
              (view_numel, ds, acc) \<Rightarrow>
                if view_numel \<noteq> tensor_numel then None
                else if rest = [] then chunks rest base tensor_numel view_numel ds acc
                else chunks rest (snd (hd rest)) 1 1 ds acc)
      else chunks rest base tensor_numel view_numel ds acc)"

definition compute_stride :: "nat list \<Rightarrow> nat list \<Rightarrow> nat list \<Rightarrow> nat list option" where
  "compute_stride oldshape oldstride newshape =
     (if oldshape = [] then Some (replicate (length newshape) 1)
      else if prod_list oldshape = 0
      then (if oldshape = newshape then Some oldstride else Some (contiguous_strides newshape))
      else chunks (rev (zip oldshape oldstride)) (last oldstride) 1 1 (rev newshape) [])"

text \<open>torch raises a RuntimeError when the shape does not hold exactly the elements of
  \<open>t\<close>, and when the layout of \<open>t\<close> cannot be regrouped into it.\<close>

definition view :: "strided \<Rightarrow> nat list \<Rightarrow> error + strided" where
  "view t dims =
     (if prod_list dims = numel t
      then (case compute_stride (shape t) (strides t) dims of
              None \<Rightarrow> Inl RuntimeError
            | Some st \<Rightarrow> Inr (t\<lparr>shape := dims, strides := st\<rparr>))
      else Inl RuntimeError)"

text \<open>\<open>t.cpu().data.numpy()\<close>: the array of the same shape and elements.\<close>

definition numpy :: "strided \<Rightarrow> tensor" where
  "numpy t = \<lparr>shape = shape t, elems = elems t\<rparr>"

text \<open>\<open>seq[0]\<close> on the value a model returns.\<close>

definition first_item :: "'a list \<Rightarrow> error + 'a" where
  "first_item xs = (case xs of [] \<Rightarrow> Inl IndexError | x # _ \<Rightarrow> Inr x)"

text \<open>A value in a dictionary or in a cell of a table: a number, or something else, such as
  a string. \<open>-val\<close> is defined on numbers only.\<close>

datatype pyvalue = Number real | Text string

definition negative :: "pyvalue \<Rightarrow> error + real" where
  "negative val = (case val of Number r \<Rightarrow> Inr (- r) | Text t \<Rightarrow> Inl TypeError)"

text \<open>\<open>[f(val) for val in vals]\<close>: the first exception ends the comprehension.\<close>

fun comprehension :: "('a \<Rightarrow> error + 'b) \<Rightarrow> 'a list \<Rightarrow> error + 'b list" where
  "comprehension f [] = Inr []"
| "comprehension f (val # vals) =
     (case f val of
        Inl e \<Rightarrow> Inl e
      | Inr b \<Rightarrow> (case comprehension f vals of Inl e \<Rightarrow> Inl e | Inr bs \<Rightarrow> Inr (b # bs)))"

text \<open>\<open>a[:, ic] = v\<close> on a two-dimensional array; any other rank, or a column out of
  range, is an IndexError.\<close>

definition set_column :: "tensor \<Rightarrow> nat \<Rightarrow> real \<Rightarrow> error + tensor" where
  "set_column a ic v =
     (case shape a of
        [n, m] \<Rightarrow>
          if ic < m
          then Inr (a\<lparr>elems := fold (\<lambda>r es. es[r * m + ic := v]) [0..<n] (elems a)\<rparr>)
          else Inl IndexError
      | _ \<Rightarrow> Inl IndexError)"

text \<open>\<open>a[:, ic] == v\<close>: the boolean vector, one entry per row.\<close>

definition column_equals :: "tensor \<Rightarrow> nat \<Rightarrow> real \<Rightarrow> error + bool list" where
  "column_equals a ic v =
     (case shape a of
        [n, m] \<Rightarrow>
          if ic < m
          then Inr (map (\<lambda>r. elems a ! (r * m + ic) = v) [0..<n])
          else Inl IndexError
      | _ \<Rightarrow> Inl IndexError)"

text \<open>\<open>z[mask, j]\<close>: column \<open>j\<close> of the rows that the boolean mask selects. numpy raises
  an IndexError when the mask is not as long as the array has rows or the column is out
  of range.\<close>

definition masked_column :: "tensor \<Rightarrow> bool list \<Rightarrow> nat \<Rightarrow> error + real list" where
  "masked_column z sel j =
     (case shape z of
        [n, c] \<Rightarrow>
          if length sel = n \<and> j < c
          then Inr (map (\<lambda>r. elems z ! (r * c + j)) (filter (\<lambda>r. sel ! r) [0..<n]))
          else Inl IndexError
      | _ \<Rightarrow> Inl IndexError)"

subsection \<open>Figures and charts\<close>

text \<open>One \<open>plt.scatter(x, y, s=.., color=..)\<close>: the points, the marker size and the index
  into the colour map \<open>Set1\<close>.\<close>

record scatter_layer =
  xs_of :: "real list"
  ys_of :: "real list"
  marker_size :: nat
  set1_colour :: nat

record figure =
  layers :: "scatter_layer list"
  title_of :: string

definition new_figure :: figure where
  "new_figure = \<lparr>layers = [], title_of = []\<rparr>"

definition scatter :: "real list \<Rightarrow> real list \<Rightarrow> nat \<Rightarrow> nat \<Rightarrow> figure \<Rightarrow> figure" where
  "scatter x y s colour fig =
     fig\<lparr>layers := layers fig @
        [\<lparr>xs_of = x, ys_of = y, marker_size = s, set1_colour = colour\<rparr>]\<rparr>"

definition set_title :: "string \<Rightarrow> figure \<Rightarrow> figure" where
  "set_title t fig = fig\<lparr>title_of := t\<rparr>"

text \<open>A row of the long-form table of \<open>plot_llk\<close>: the columns Epoch, ELBO, dataset.\<close>

record row =
  Epoch :: int
  ELBO :: real
  dataset :: string

datatype plot_kind = scatterplot | lineplot

record mapped_layer =
  kind :: plot_kind
  x_column :: string
  y_column :: string
  linestyle :: "string option"

text \<open>A seaborn \<open>FacetGrid\<close>: the table it was built on, its keyword arguments, the plot
  functions mapped onto it and what was switched on afterwards.\<close>

record facet_grid =
  frame :: "row list"
  height :: nat
  aspect :: real
  hue :: string
  mapped :: "mapped_layer list"
  integer_ticks :: bool
  legend :: bool

datatype content = Figure figure | Chart facet_grid

subsection \<open>The world: files, the log of calls, ambient state\<close>

datatype node = Dir | File content

datatype event =
    Images "tensor list" nat nat
  | Saved string content

record 'x world =
  fs :: "string list \<Rightarrow> node option"
  events :: "event list"
  ambient :: 'x

type_synonym ('a, 'x) io = "'x world \<Rightarrow> (error + 'a) \<times> 'x world"

definition return_io :: "'a \<Rightarrow> ('a, 'x) io" where
  "return_io a w = (Inr a, w)"

text \<open>Sequencing: an exception ends the run, with the world as the failing call left it.\<close>

definition bind_io :: "('a, 'x) io \<Rightarrow> ('a \<Rightarrow> ('b, 'x) io) \<Rightarrow> ('b, 'x) io" where
  "bind_io m f w = (case m w of (Inl e, w') \<Rightarrow> (Inl e, w') | (Inr a, w') \<Rightarrow> f a w')"

text \<open>A call that touches no state: indexing, reshaping.\<close>

definition pure_io :: "error + 'a \<Rightarrow> ('a, 'x) io" where
  "pure_io r w = (r, w)"

text \<open>A call into a collaborator: it sees and changes the ambient state only.\<close>

definition call_io :: "('x \<Rightarrow> (error + 'a) \<times> 'x) \<Rightarrow> ('a, 'x) io" where
  "call_io c w = (case c (ambient w) of (r, x') \<Rightarrow> (r, w\<lparr>ambient := x'\<rparr>))"

text \<open>A \<open>for\<close> loop over a list, with the local variables it assigns as \<open>s\<close>.\<close>

fun for_io :: "('i \<Rightarrow> 's \<Rightarrow> ('s, 'x) io) \<Rightarrow> 'i list \<Rightarrow> 's \<Rightarrow> ('s, 'x) io" where
  "for_io body [] s w = (Inr s, w)"
| "for_io body (i # is) s w =
     (case body i s w of
        (Inl e, w') \<Rightarrow> (Inl e, w')
      | (Inr s', w') \<Rightarrow> for_io body is s' w')"

subsection \<open>Paths and files\<close>

text \<open>
  The file tree is rooted at the working directory; a node is found under the list of the
  names that lead to it. A path is cut at its slashes; empty parts and \<open>.\<close> stay where
  they are, \<open>..\<close> goes one directory up (and stays at the top, as at a root).
\<close>

fun split_on :: "char \<Rightarrow> string \<Rightarrow> string list" where
  "split_on c [] = [[]]"
| "split_on c (x # xs) =
     (if x = c then [] # split_on c xs
      else (case split_on c xs of [] \<Rightarrow> [[x]] | p # ps \<Rightarrow> (x # p) # ps))"

text \<open>Following the directory part of a path: every part must name a directory.\<close>

fun walk :: "(string list \<Rightarrow> node option) \<Rightarrow> string list \<Rightarrow> string list \<Rightarrow> error + string list" where
  "walk f cur [] = Inr cur"
| "walk f cur (c # cs) =
     (if c = [] \<or> c = ''.'' then walk f cur cs
      else if c = ''..'' then walk f (butlast cur) cs
      else (case f (cur @ [c]) of
              None \<Rightarrow> Inl FileNotFoundError
            | Some (File _) \<Rightarrow> Inl NotADirectoryError
            | Some Dir \<Rightarrow> walk f (cur @ [c]) cs))"

text \<open>Opening a path for writing, as \<open>savefig\<close> does: the directory part must exist, the
  last part must not name a directory. The result is the place of the file.\<close>

definition open_for_write :: "(string list \<Rightarrow> node option) \<Rightarrow> string \<Rightarrow> error + string list" where
  "open_for_write f path =
     (let parts = split_on CHR ''/'' path in
      case walk f [] (butlast parts) of
        Inl e \<Rightarrow> Inl e
      | Inr d \<Rightarrow>
          if last parts = [] \<or> last parts = ''.'' \<or> last parts = ''..'' then Inl IsADirectoryError
          else if f (d @ [last parts]) = Some Dir then Inl IsADirectoryError
          else Inr (d @ [last parts]))"

text \<open>\<open>savefig(path)\<close>: the file is created or overwritten, and the call is logged.\<close>

definition savefig :: "string \<Rightarrow> content \<Rightarrow> (unit, 'x) io" where
  "savefig path pic w =
     (case open_for_write (fs w) path of
        Inl e \<Rightarrow> (Inl e, w)
      | Inr place \<Rightarrow>
          (Inr (), w\<lparr>fs := (fs w)(place \<mapsto> File pic), events := events w @ [Saved path pic]\<rparr>))"

text \<open>\<open>Path(p).mkdir(parents=True, exist_ok=True)\<close>: missing directories are created on
  the way, existing ones are accepted, a file in the way is an error.\<close>

fun mkdir_parents :: "(string list \<Rightarrow> node option) \<Rightarrow> string list \<Rightarrow> string list
    \<Rightarrow> error + (string list \<Rightarrow> node option)" where
  "mkdir_parents f cur [] = Inr f"
| "mkdir_parents f cur (c # cs) =
     (if c = [] \<or> c = ''.'' then mkdir_parents f cur cs
      else if c = ''..'' then mkdir_parents f (butlast cur) cs
      else (case f (cur @ [c]) of
              None \<Rightarrow> mkdir_parents (f(cur @ [c] \<mapsto> Dir)) (cur @ [c]) cs
            | Some Dir \<Rightarrow> mkdir_parents f (cur @ [c]) cs
            | Some (File _) \<Rightarrow> Inl (if cs = [] then FileExistsError else NotADirectoryError)))"

definition mkdir :: "string \<Rightarrow> (unit, 'x) io" where
  "mkdir path w =
     (case mkdir_parents (fs w) [] (split_on CHR ''/'' path) of
        Inl e \<Rightarrow> (Inl e, w)
      | Inr f' \<Rightarrow> (Inr (), w\<lparr>fs := f'\<rparr>))"

text \<open>\<open>vis.images(images, nrow, padding)\<close> on the visdom session \<open>vis\<close>, a collaborator that
  may raise: the call is logged as issued, and the session answers in the ambient state.\<close>

definition vis_images :: "(tensor list \<Rightarrow> nat \<Rightarrow> nat \<Rightarrow> 'x \<Rightarrow> (error + unit) \<times> 'x)
    \<Rightarrow> tensor list \<Rightarrow> nat \<Rightarrow> nat \<Rightarrow> (unit, 'x) io" where
  "vis_images vis imgs nrow padding w =
     (case vis imgs nrow padding (ambient w) of
        (r, x') \<Rightarrow> (r, w\<lparr>events := events w @ [Images imgs nrow padding], ambient := x'\<rparr>))"

subsection \<open>\<open>str\<close>\<close>

function str_nat :: "nat \<Rightarrow> string" where
  "str_nat n = (if n < 10 then [''0123456789'' ! n] else str_nat (n div 10) @ [''0123456789'' ! (n mod 10)])"
  by pat_completeness auto
termination
  by (relation "measure id") auto

declare str_nat.simps [simp del]

text \<open>\<open>str(name)\<close>, for a name that is a string or \<open>None\<close>.\<close>

definition str_name :: "string option \<Rightarrow> string" where
  "str_name name = (case name of None \<Rightarrow> ''None'' | Some s \<Rightarrow> s)"

subsection \<open>\<open>plot_conditional_samples_ssvae\<close> and \<open>plot_vae_samples\<close>\<close>

text \<open>\<open>ys[i] = torch.zeros(1, 10); ys[i][0, i] = 1\<close>.\<close>

definition ys :: "nat \<Rightarrow> tensor" where
  "ys i = (let t = zeros [1, 10] in t\<lparr>elems := (elems t)[0 * 10 + i := 1]\<rparr>)"

text \<open>The body of the inner loop: one sample, its first item, reshaped, converted,
  appended. \<open>draw\<close> is the call of the model on its arguments; the sample it returns is the
  list of its items along the first axis.\<close>

definition sample_image :: "('x \<Rightarrow> (error + strided list) \<times> 'x) \<Rightarrow> nat \<Rightarrow> tensor list
    \<Rightarrow> (tensor list, 'x) io" where
  "sample_image draw rr images =
     bind_io (call_io draw) (\<lambda>sample_loc_i.
     bind_io (pure_io (first_item sample_loc_i)) (\<lambda>t.
     bind_io (pure_io (view t [1, 28, 28])) (\<lambda>v.
     let img = numpy v in
     return_io (images @ [img]))))"

text \<open>The body of the outer loop, the same in both functions: a fresh list, 100 samples,
  one call of \<open>vis.images\<close>.\<close>

definition sample_row :: "('x \<Rightarrow> (error + strided list) \<times> 'x)
    \<Rightarrow> (tensor list \<Rightarrow> nat \<Rightarrow> nat \<Rightarrow> 'x \<Rightarrow> (error + unit) \<times> 'x) \<Rightarrow> (unit, 'x) io" where
  "sample_row draw vis =
     bind_io (for_io (sample_image draw) [0..<100] []) (\<lambda>images.
     vis_images vis images 10 2)"

definition plot_conditional_samples_ssvae ::
    "(tensor \<Rightarrow> tensor \<Rightarrow> 'x \<Rightarrow> (error + strided list) \<times> 'x)
    \<Rightarrow> (tensor list \<Rightarrow> nat \<Rightarrow> nat \<Rightarrow> 'x \<Rightarrow> (error + unit) \<times> 'x) \<Rightarrow> (unit, 'x) io" where
  "plot_conditional_samples_ssvae model vis =
     (let xs = zeros [1, 784] in
      for_io (\<lambda>i _. sample_row (model xs (ys i)) vis) [0..<10] ())"


subsection \<open>\<open>plot_llk\<close>\<close>

text \<open>\<open>pd.DataFrame({'Epoch': keys, 'ELBO': values, 'dataset': tag})\<close>.\<close>

definition DataFrame :: "int list \<Rightarrow> real list \<Rightarrow> string \<Rightarrow> row list" where
  "DataFrame keys vals tag = map (\<lambda>(k, v). \<lparr>Epoch = k, ELBO = v, dataset = tag\<rparr>) (zip keys vals)"

definition FacetGrid :: "row list \<Rightarrow> nat \<Rightarrow> real \<Rightarrow> string \<Rightarrow> facet_grid" where
  "FacetGrid df h a hu =
     \<lparr>frame = df, height = h, aspect = a, hue = hu, mapped = [], integer_ticks = False,
      legend = False\<rparr>"

definition grid_map :: "plot_kind \<Rightarrow> string \<Rightarrow> string \<Rightarrow> string option \<Rightarrow> facet_grid \<Rightarrow> facet_grid" where
  "grid_map k x y ls g =
     g\<lparr>mapped := mapped g @ [\<lparr>kind = k, x_column = x, y_column = y, linestyle = ls\<rparr>]\<rparr>"

text \<open>The chart, from the two tables on: the keys of each dictionary and the values
  already negated. The figure that \<open>plt.figure(figsize=(30, 10))\<close> opens is never drawn
  on: the grid opens its own, which is the current one when \<open>plt.savefig\<close> runs.\<close>

definition llk_chart :: "int list \<Rightarrow> real list \<Rightarrow> int list \<Rightarrow> real list \<Rightarrow> facet_grid" where
  "llk_chart train_keys train_vals test_keys test_vals =
     (let df1 = DataFrame train_keys train_vals ''Train'';
          df2 = DataFrame test_keys test_vals ''Test'';
          df = df1 @ df2;
          g0 = FacetGrid df 4 1.5 ''dataset'';
          g1 = grid_map scatterplot ''Epoch'' ''ELBO'' None g0;
          g2 = grid_map lineplot ''Epoch'' ''ELBO'' (Some ''--'') g1;
          g3 = g2\<lparr>integer_ticks := True\<rparr>
      in g3\<lparr>legend := True\<rparr>)"

text \<open>
  \<open>plot_llk\<close> on two dictionaries, as lists of (epoch, value) in insertion order. Python
  accepts any value in a dictionary; the values are first used when they are negated, one
  dictionary after the other, after the directory has been made. Drawing the chart is
  the work of seaborn and matplotlib, which may raise on a table they cannot draw:
  \<open>plotting\<close> stands for them, is given the chart and runs in the ambient state, before
  the file is opened.
\<close>

definition plot_llk_any :: "(facet_grid \<Rightarrow> 'x \<Rightarrow> (error + unit) \<times> 'x)
    \<Rightarrow> (int \<times> pyvalue) list \<Rightarrow> (int \<times> pyvalue) list \<Rightarrow> (unit, 'x) io" where
  "plot_llk_any plotting train_elbo test_elbo =
     bind_io (mkdir ''vae_results'') (\<lambda>_.
     bind_io (pure_io (comprehension negative (map snd train_elbo))) (\<lambda>train_vals.
     bind_io (pure_io (comprehension negative (map snd test_elbo))) (\<lambda>test_vals.
     let g = llk_chart (map fst train_elbo) train_vals (map fst test_elbo) test_vals in
     bind_io (call_io (plotting g)) (\<lambda>_.
     savefig ''./vae_results/test_elbo_vae.png'' (Chart g)))))"

text \<open>The same on dictionaries of losses, where every value is a number and the chart
  is one that the libraries draw: the chart, and the function.\<close>

definition llk_grid :: "(int \<times> real) list \<Rightarrow> (int \<times> real) list \<Rightarrow> facet_grid" where
  "llk_grid train_elbo test_elbo =
     llk_chart (map fst train_elbo) (map (\<lambda>val. - val) (map snd train_elbo))
       (map fst test_elbo) (map (\<lambda>val. - val) (map snd test_elbo))"

definition draws :: "facet_grid \<Rightarrow> 'x \<Rightarrow> (error + unit) \<times> 'x" where
  "draws g x = (Inr (), x)"

definition plot_llk :: "(int \<times> real) list \<Rightarrow> (int \<times> real) list \<Rightarrow> (unit, 'x) io" where
  "plot_llk train_elbo test_elbo =
     plot_llk_any draws (map (\<lambda>(epoch, val). (epoch, Number val)) train_elbo)
       (map (\<lambda>(epoch, val). (epoch, Number val)) test_elbo)"

text \<open>
  Reading a chart. A cell of the table is found by the name of its column. The series are
  the levels of the hue column, in order of appearance. The grid calls each plot function
  mapped onto it once per series, with the two named columns of the rows of that series:
  \<open>drawn\<close> lists these calls, and \<open>marks\<close> the points that the calls of one kind of plot
  put on the chart.
\<close>

definition cell :: "string \<Rightarrow> row \<Rightarrow> pyvalue option" where
  "cell c r =
     (if c = ''Epoch'' then Some (Number (real_of_int (Epoch r)))
      else if c = ''ELBO'' then Some (Number (ELBO r))
      else if c = ''dataset'' then Some (Text (dataset r))
      else None)"

definition series :: "facet_grid \<Rightarrow> pyvalue option list" where
  "series g = remdups (map (cell (hue g)) (frame g))"

record drawing =
  drawn_layer :: mapped_layer
  drawn_level :: "pyvalue option"
  drawn_points :: "(pyvalue option \<times> pyvalue option) list"

definition drawn :: "facet_grid \<Rightarrow> drawing list" where
  "drawn g =
     concat (map (\<lambda>l. map (\<lambda>lvl.
        \<lparr>drawn_layer = l, drawn_level = lvl,
         drawn_points = map (\<lambda>r. (cell (x_column l) r, cell (y_column l) r))
                (filter (\<lambda>r. cell (hue g) r = lvl) (frame g))\<rparr>) (series g)) (mapped g))"

definition marks :: "plot_kind \<Rightarrow> facet_grid \<Rightarrow> (pyvalue option \<times> pyvalue option) list" where
  "marks k g = concat (map drawn_points (filter (\<lambda>d. kind (drawn_layer d) = k) (drawn g)))"

subsection \<open>\<open>plot_tsne\<close> and its two callers\<close>

text \<open>The body of the loop over \<open>ic\<close>. All scatter calls draw on the one figure opened
  before the loop, which is saved after each of them.\<close>

definition tsne_class :: "tensor \<Rightarrow> tensor \<Rightarrow> string option \<Rightarrow> nat \<Rightarrow> figure \<Rightarrow> (figure, 'x) io" where
  "tsne_class z_embed classes name ic fig =
     bind_io (pure_io (set_column (zeros (shape classes)) ic 1)) (\<lambda>ind_vec.
     bind_io (pure_io (column_equals classes ic 1)) (\<lambda>ind_class.
     bind_io (pure_io (masked_column z_embed ind_class 0)) (\<lambda>x.
     bind_io (pure_io (masked_column z_embed ind_class 1)) (\<lambda>y.
       let fig1 = scatter x y 10 ic fig;
           fig2 = set_title ''Latent Variable T-SNE per Class'' fig1
       in bind_io (savefig (''./vae_results/'' @ str_name name @ ''_embedding_'' @ str_nat ic @ ''.png'')
                    (Figure fig2)) (\<lambda>_.
          return_io fig2)))))"

text \<open>\<open>TSNE\<close> is the reduction \<open>TSNE(n_components, random_state).fit_transform(array)\<close>:
  it is given the number of components, the seed (\<open>None\<close> when the caller leaves it
  out) and the array, and runs in the ambient state. \<open>plot_tsne\<close> always passes 2 and the
  seed 0.\<close>

definition plot_tsne :: "(nat \<Rightarrow> int option \<Rightarrow> tensor \<Rightarrow> 'x \<Rightarrow> (error + tensor) \<times> 'x)
    \<Rightarrow> tensor \<Rightarrow> tensor \<Rightarrow> string option \<Rightarrow> (unit, 'x) io" where
  "plot_tsne TSNE z_loc classes name =
     bind_io (call_io (TSNE 2 (Some 0) z_loc)) (\<lambda>z_embed.
     bind_io (for_io (tsne_class z_embed classes name) [0..<10] new_figure) (\<lambda>fig.
     savefig (''./vae_results/'' @ str_name name @ ''_embedding.png'') (Figure fig)))"

record test_set =
  test_data :: tensor
  test_labels :: tensor

text \<open>An argument left at its default \<open>None\<close> has no attributes.\<close>

definition attr :: "'a option \<Rightarrow> ('a, 'x) io" where
  "attr obj w = (case obj of None \<Rightarrow> (Inl AttributeError, w) | Some a \<Rightarrow> (Inr a, w))"


definition mnist_test_tsne_ssvae :: "(nat \<Rightarrow> int option \<Rightarrow> tensor \<Rightarrow> 'x \<Rightarrow> (error + tensor) \<times> 'x)
    \<Rightarrow> string option \<Rightarrow> (tensor \<Rightarrow> tensor \<Rightarrow> 'x \<Rightarrow> (error + tensor \<times> tensor) \<times> 'x) option
    \<Rightarrow> test_set option \<Rightarrow> (unit, 'x) io" where
  "mnist_test_tsne_ssvae TSNE name ssvae test_loader =
     (let name = (if name = None then Some ''SS-VAE'' else name) in
      bind_io (attr test_loader) (\<lambda>ds.
      let data = test_data ds; mnist_labels = test_labels ds in
      bind_io (attr ssvae) (\<lambda>encoder_z.
      bind_io (call_io (encoder_z data mnist_labels)) (\<lambda>(z_loc, z_scale).
      plot_tsne TSNE z_loc mnist_labels name))))"

subsection \<open>Concrete inputs\<close>

text \<open>A world with no files, nothing logged and no ambient state.\<close>

definition w0 :: "unit world" where
  "w0 = \<lparr>fs = Map.empty, events = [], ambient = ()\<rparr>"

text \<open>A model that returns a batch of one blank flat image, whatever it is asked, and a
  session that accepts every call.\<close>

definition still_model :: "tensor \<Rightarrow> tensor \<Rightarrow> unit \<Rightarrow> (error + strided list) \<times> unit" where
  "still_model xs y x = (Inr [\<lparr>shape = [784], elems = replicate 784 0, strides = [1]\<rparr>], ())"

definition quiet_session :: "tensor list \<Rightarrow> nat \<Rightarrow> nat \<Rightarrow> unit \<Rightarrow> (error + unit) \<times> unit" where
  "quiet_session imgs nrow padding x = (Inr (), ())"

subsection \<open>Reading the outcome of \<open>plot_tsne\<close>\<close>

text \<open>The names and paths of the files of \<open>plot_tsne\<close>, the layer that the iteration for
  class \<open>ic\<close> draws, the figure after the first \<open>k\<close> iterations, the paths of the figures
  saved in a log, and the part of the log that a run added.\<close>

definition class_file :: "string option \<Rightarrow> nat \<Rightarrow> string" where
  "class_file name ic = str_name name @ ''_embedding_'' @ str_nat ic @ ''.png''"

definition aggregate_file :: "string option \<Rightarrow> string" where
  "aggregate_file name = str_name name @ ''_embedding.png''"

definition class_path :: "string option \<Rightarrow> nat \<Rightarrow> string" where
  "class_path name ic = ''./vae_results/'' @ class_file name ic"

definition aggregate_path :: "string option \<Rightarrow> string" where
  "aggregate_path name = ''./vae_results/'' @ aggregate_file name"

definition selected :: "tensor \<Rightarrow> tensor \<Rightarrow> nat \<Rightarrow> nat \<Rightarrow> real list" where
  "selected z classes ic j =
     (case column_equals classes ic 1 of
        Inl e \<Rightarrow> []
      | Inr sel \<Rightarrow> (case masked_column z sel j of Inl e \<Rightarrow> [] | Inr v \<Rightarrow> v))"

definition class_layer :: "tensor \<Rightarrow> tensor \<Rightarrow> nat \<Rightarrow> scatter_layer" where
  "class_layer z classes ic =
     \<lparr>xs_of = selected z classes ic 0, ys_of = selected z classes ic 1, marker_size = 10,
      set1_colour = ic\<rparr>"

definition figure_upto :: "tensor \<Rightarrow> tensor \<Rightarrow> nat \<Rightarrow> figure" where
  "figure_upto z classes k =
     (if k = 0 then new_figure
      else \<lparr>layers = map (class_layer z classes) [0..<k],
            title_of = ''Latent Variable T-SNE per Class''\<rparr>)"

fun saved_paths :: "event list \<Rightarrow> string list" where
  "saved_paths [] = []"
| "saved_paths (Images imgs nrow padding # es) = saved_paths es"
| "saved_paths (Saved path pic # es) = path # saved_paths es"

definition new_events :: "'x world \<Rightarrow> 'x world \<Rightarrow> event list" where
  "new_events w w' = drop (length (events w)) (events w')"

text \<open>Class \<open>ic\<close> occurs in the labels when its indicator column holds a 1; the number of
  distinct classes is the number of columns that occur.\<close>

definition occurs :: "tensor \<Rightarrow> nat \<Rightarrow> bool" where
  "occurs classes ic =
     (case column_equals classes ic 1 of Inl e \<Rightarrow> False | Inr sel \<Rightarrow> True \<in> set sel)"

definition distinct_classes :: "tensor \<Rightarrow> nat" where
  "distinct_classes classes =
     (case shape classes of [n, m] \<Rightarrow> length (filter (occurs classes) [0..<m]) | _ \<Rightarrow> 0)"

text \<open>A world in which only the directory \<open>vae_results\<close> exists; two observations, of the
  classes 3 and 7, as indicator rows; a reduction that returns two fixed points.\<close>

definition results_world :: "unit world" where
  "results_world = \<lparr>fs = Map.empty([''vae_results''] \<mapsto> Dir), events = [], ambient = ()\<rparr>"

definition two_labels :: tensor where
  "two_labels = \<lparr>shape = [2, 10], elems = [0,0,0,1,0,0,0,0,0,0, 0,0,0,0,0,0,0,1,0,0]\<rparr>"

definition two_points :: "nat \<Rightarrow> int option \<Rightarrow> tensor \<Rightarrow> unit \<Rightarrow> (error + tensor) \<times> unit" where
  "two_points n seed z x = (Inr \<lparr>shape = [2, 2], elems = [1, 2, 3, 4]\<rparr>, ())"

text \<open>An encoder that returns two fixed arrays, and a test set of two observations.\<close>

definition plain_encoder :: "tensor \<Rightarrow> tensor \<Rightarrow> unit \<Rightarrow> (error + tensor \<times> tensor) \<times> unit" where
  "plain_encoder data labels x = (Inr (zeros [2, 3], zeros [2, 3]), ())"

definition two_digits :: test_set where
  "two_digits = \<lparr>test_data = zeros [2, 784], test_labels = two_labels\<rparr>"

text \<open>What the indexing and drawing of one iteration of \<open>plot_tsne\<close> give, before the
  figure is saved.\<close>

definition class_figure :: "tensor \<Rightarrow> tensor \<Rightarrow> nat \<Rightarrow> figure \<Rightarrow> error + figure" where
  "class_figure z classes ic fig =
     (case set_column (zeros (shape classes)) ic 1 of
        Inl e \<Rightarrow> Inl e
      | Inr ind_vec \<Rightarrow>
     (case column_equals classes ic 1 of
        Inl e \<Rightarrow> Inl e
      | Inr ind_class \<Rightarrow>
     (case masked_column z ind_class 0 of
        Inl e \<Rightarrow> Inl e
      | Inr x \<Rightarrow>
     (case masked_column z ind_class 1 of
        Inl e \<Rightarrow> Inl e
      | Inr y \<Rightarrow> Inr (set_title ''Latent Variable T-SNE per Class'' (scatter x y 10 ic fig))))))"


section \<open>Properties\<close>

subsection \<open>Paths below \<open>./vae_results/\<close>\<close>

lemma split_on_absent: "c \<notin> set s \<Longrightarrow> split_on c s = [s]"
  by (induction s) auto

lemma split_on_append: "c \<notin> set a \<Longrightarrow> split_on c (a @ c # b) = a # split_on c b"
  by (induction a) auto

lemma split_results: "split_on CHR ''/'' (''./vae_results/'' @ f) = ''.'' # ''vae_results'' # split_on CHR ''/'' f"
proof -
  have "split_on CHR ''/'' (''.'' @ CHR ''/'' # (''vae_results'' @ CHR ''/'' # f))
      = ''.'' # split_on CHR ''/'' (''vae_results'' @ CHR ''/'' # f)"
    by (rule split_on_append) simp
  also have "split_on CHR ''/'' (''vae_results'' @ CHR ''/'' # f) = ''vae_results'' # split_on CHR ''/'' f"
    by (rule split_on_append) simp
  finally show ?thesis by simp
qed

lemma open_results:
  assumes "CHR ''/'' \<notin> set f" "f \<noteq> []" "f \<noteq> ''.''" "f \<noteq> ''..''"
  shows "open_for_write g (''./vae_results/'' @ f) =
     (case g [''vae_results''] of
        None \<Rightarrow> Inl FileNotFoundError
      | Some (File c) \<Rightarrow> Inl NotADirectoryError
      | Some Dir \<Rightarrow> if g [''vae_results'', f] = Some Dir then Inl IsADirectoryError
                    else Inr [''vae_results'', f])"
  using assms
  by (simp add: open_for_write_def split_results split_on_absent split: option.splits node.splits)

lemma savefig_results:
  assumes "CHR ''/'' \<notin> set f" "f \<noteq> []" "f \<noteq> ''.''" "f \<noteq> ''..''"
  shows "savefig (''./vae_results/'' @ f) c w =
     (case fs w [''vae_results''] of
        None \<Rightarrow> (Inl FileNotFoundError, w)
      | Some (File d) \<Rightarrow> (Inl NotADirectoryError, w)
      | Some Dir \<Rightarrow>
          if fs w [''vae_results'', f] = Some Dir then (Inl IsADirectoryError, w)
          else (Inr (), w\<lparr>fs := (fs w)([''vae_results'', f] \<mapsto> File c),
                          events := events w @ [Saved (''./vae_results/'' @ f) c]\<rparr>))"
  unfolding savefig_def open_results [OF assms]
  by (simp split: option.splits node.splits)

lemma mkdir_results:
  "mkdir ''vae_results'' w =
     (case fs w [''vae_results''] of
        None \<Rightarrow> (Inr (), w\<lparr>fs := (fs w)([''vae_results''] \<mapsto> Dir)\<rparr>)
      | Some Dir \<Rightarrow> (Inr (), w)
      | Some (File c) \<Rightarrow> (Inl FileExistsError, w))"
  by (simp add: mkdir_def split: option.splits node.splits)

lemma bind_pure: "bind_io (pure_io (Inr a)) f = f a"
  by (rule ext) (simp add: bind_io_def pure_io_def)

lemma negatives_numbers:
  "comprehension negative (map snd (map (\<lambda>(epoch, val). (epoch, Number val)) d))
     = Inr (map (\<lambda>val. - val) (map snd d))"
  by (induction d) (auto simp: negative_def)

lemma keys_numbers: "map fst (map (\<lambda>(epoch, val). (epoch, Number val)) d) = map fst d"
  by (induction d) auto

lemma bind_draws: "bind_io (call_io (draws g)) f = f ()"
  by (rule ext) (simp add: bind_io_def call_io_def draws_def)

lemma plot_llk_numbers:
  "plot_llk tr te =
     bind_io (mkdir ''vae_results'') (\<lambda>_.
     savefig ''./vae_results/test_elbo_vae.png'' (Chart (llk_grid tr te)))"
  unfolding plot_llk_def plot_llk_any_def llk_grid_def negatives_numbers keys_numbers bind_pure
    Let_def bind_draws ..

lemma plot_llk_results:
  "plot_llk tr te w =
     (case fs w [''vae_results''] of
        Some (File c) \<Rightarrow> (Inl FileExistsError, w)
      | _ \<Rightarrow>
          if fs w [''vae_results'', ''test_elbo_vae.png''] = Some Dir
          then (Inl IsADirectoryError, w\<lparr>fs := (fs w)([''vae_results''] \<mapsto> Dir)\<rparr>)
          else (Inr (), w\<lparr>fs := (fs w)([''vae_results''] \<mapsto> Dir,
                                  [''vae_results'', ''test_elbo_vae.png''] \<mapsto> File (Chart (llk_grid tr te))),
                          events := events w @ [Saved ''./vae_results/test_elbo_vae.png'' (Chart (llk_grid tr te))]\<rparr>))"
proof -
  have sv: "savefig ''./vae_results/test_elbo_vae.png'' c v =
     (case fs v [''vae_results''] of
        None \<Rightarrow> (Inl FileNotFoundError, v)
      | Some (File d) \<Rightarrow> (Inl NotADirectoryError, v)
      | Some Dir \<Rightarrow>
          if fs v [''vae_results'', ''test_elbo_vae.png''] = Some Dir then (Inl IsADirectoryError, v)
          else (Inr (), v\<lparr>fs := (fs v)([''vae_results'', ''test_elbo_vae.png''] \<mapsto> File c),
                          events := events v @ [Saved ''./vae_results/test_elbo_vae.png'' c]\<rparr>))"
    for c and v :: "'a world"
  proof -
    have p: "''./vae_results/test_elbo_vae.png'' = ''./vae_results/'' @ ''test_elbo_vae.png''"
      by simp
    show ?thesis
      unfolding p by (rule savefig_results) simp_all
  qed
  show ?thesis
    by (cases "fs w [''vae_results'']")
       (auto simp: plot_llk_numbers bind_io_def mkdir_results sv fun_upd_idem split: node.splits)
qed

subsection \<open>The loss curve\<close>

text \<open>
  Claim C4. \<open>plot_llk\<close> is idempotent with respect to the output directory. Whether
  \<open>vae_results\<close> is absent or already a directory (and the output path is not itself a
  directory), the call succeeds, the directory exists afterwards and the chart is at
  \<open>vae_results/test_elbo_vae.png\<close>. A second call with the same inputs succeeds as well
  and leaves the files exactly as the first call left them; a call with other inputs
  replaces the file that is there.
\<close>

theorem plot_llk_idempotent:
  assumes "fs w [''vae_results''] = None \<or> fs w [''vae_results''] = Some Dir"
    and "fs w [''vae_results'', ''test_elbo_vae.png''] \<noteq> Some Dir"
  shows "fst (plot_llk tr te w) = Inr ()
    \<and> fs (snd (plot_llk tr te w)) [''vae_results''] = Some Dir
    \<and> fs (snd (plot_llk tr te w)) [''vae_results'', ''test_elbo_vae.png'']
        = Some (File (Chart (llk_grid tr te)))
    \<and> fst (plot_llk tr te (snd (plot_llk tr te w))) = Inr ()
    \<and> fs (snd (plot_llk tr te (snd (plot_llk tr te w)))) = fs (snd (plot_llk tr te w))
    \<and> fst (plot_llk tr' te' (snd (plot_llk tr te w))) = Inr ()
    \<and> fs (snd (plot_llk tr' te' (snd (plot_llk tr te w)))) [''vae_results'', ''test_elbo_vae.png'']
        = Some (File (Chart (llk_grid tr' te')))"
  using assms by (auto simp: plot_llk_results)


theorem plot_llk_idempotent_witness:
  "(fs w0 [''vae_results''] = None \<or> fs w0 [''vae_results''] = Some Dir)
    \<and> fs w0 [''vae_results'', ''test_elbo_vae.png''] \<noteq> Some Dir
    \<and> (fst (plot_llk [(0, 1)] [(0, 2)] w0) = Inr ()
    \<and> fs (snd (plot_llk [(0, 1)] [(0, 2)] w0)) [''vae_results''] = Some Dir
    \<and> fs (snd (plot_llk [(0, 1)] [(0, 2)] w0)) [''vae_results'', ''test_elbo_vae.png'']
        = Some (File (Chart (llk_grid [(0, 1)] [(0, 2)])))
    \<and> fst (plot_llk [(0, 1)] [(0, 2)] (snd (plot_llk [(0, 1)] [(0, 2)] w0))) = Inr ()
    \<and> fs (snd (plot_llk [(0, 1)] [(0, 2)] (snd (plot_llk [(0, 1)] [(0, 2)] w0))))
        = fs (snd (plot_llk [(0, 1)] [(0, 2)] w0))
    \<and> fst (plot_llk [(5, 3)] [] (snd (plot_llk [(0, 1)] [(0, 2)] w0))) = Inr ()
    \<and> fs (snd (plot_llk [(5, 3)] [] (snd (plot_llk [(0, 1)] [(0, 2)] w0))))
          [''vae_results'', ''test_elbo_vae.png'']
        = Some (File (Chart (llk_grid [(5, 3)] []))))"
proof -
  have a: "fs w0 [''vae_results''] = None \<or> fs w0 [''vae_results''] = Some Dir"
    by (simp add: w0_def)
  have b: "fs w0 [''vae_results'', ''test_elbo_vae.png''] \<noteq> Some Dir"
    by (simp add: w0_def)
  show ?thesis
    by (rule conjI [OF a conjI [OF b plot_llk_idempotent [OF a b]]])
qed

text \<open>
  Claim C9. For \<open>train = {0: -120.5, 1: -100.2}\<close> and \<open>test = {0: -130.0, 1: -110.7}\<close>,
  \<open>plot_llk\<close> saves exactly one figure, at \<open>./vae_results/test_elbo_vae.png\<close>; no other
  file changes. The chart is coloured by the column \<open>dataset\<close>, which has the two levels
  Train and Test. The two plot functions mapped onto the grid are each called once per
  level on the columns Epoch and ELBO: the scatter plot puts four points on the chart, two
  per series (the plotted value is the negated loss), and the dashed line plot runs
  through the same four points.
\<close>

theorem plot_llk_example:
  assumes "fs w [''vae_results''] = None \<or> fs w [''vae_results''] = Some Dir"
    and "fs w [''vae_results'', ''test_elbo_vae.png''] \<noteq> Some Dir"
  shows "fst (plot_llk [(0, - 120.5), (1, - 100.2)] [(0, - 130.0), (1, - 110.7)] w) = Inr ()
    \<and> events (snd (plot_llk [(0, - 120.5), (1, - 100.2)] [(0, - 130.0), (1, - 110.7)] w))
        = events w @ [Saved ''./vae_results/test_elbo_vae.png''
             (Chart (llk_grid [(0, - 120.5), (1, - 100.2)] [(0, - 130.0), (1, - 110.7)]))]
    \<and> (\<forall>p. p \<noteq> [''vae_results''] \<and> p \<noteq> [''vae_results'', ''test_elbo_vae.png'']
          \<longrightarrow> fs (snd (plot_llk [(0, - 120.5), (1, - 100.2)] [(0, - 130.0), (1, - 110.7)] w)) p = fs w p)
    \<and> fs (snd (plot_llk [(0, - 120.5), (1, - 100.2)] [(0, - 130.0), (1, - 110.7)] w))
          [''vae_results'', ''test_elbo_vae.png'']
        = Some (File (Chart (llk_grid [(0, - 120.5), (1, - 100.2)] [(0, - 130.0), (1, - 110.7)])))
    \<and> hue (llk_grid [(0, - 120.5), (1, - 100.2)] [(0, - 130.0), (1, - 110.7)]) = ''dataset''
    \<and> series (llk_grid [(0, - 120.5), (1, - 100.2)] [(0, - 130.0), (1, - 110.7)])
        = [Some (Text ''Train''), Some (Text ''Test'')]
    \<and> drawn (llk_grid [(0, - 120.5), (1, - 100.2)] [(0, - 130.0), (1, - 110.7)])
        = [\<lparr>drawn_layer = \<lparr>kind = scatterplot, x_column = ''Epoch'', y_column = ''ELBO'', linestyle = None\<rparr>,
            drawn_level = Some (Text ''Train''),
            drawn_points = [(Some (Number 0), Some (Number 120.5)), (Some (Number 1), Some (Number 100.2))]\<rparr>,
           \<lparr>drawn_layer = \<lparr>kind = scatterplot, x_column = ''Epoch'', y_column = ''ELBO'', linestyle = None\<rparr>,
            drawn_level = Some (Text ''Test''),
            drawn_points = [(Some (Number 0), Some (Number 130.0)), (Some (Number 1), Some (Number 110.7))]\<rparr>,
           \<lparr>drawn_layer = \<lparr>kind = lineplot, x_column = ''Epoch'', y_column = ''ELBO'', linestyle = Some ''--''\<rparr>,
            drawn_level = Some (Text ''Train''),
            drawn_points = [(Some (Number 0), Some (Number 120.5)), (Some (Number 1), Some (Number 100.2))]\<rparr>,
           \<lparr>drawn_layer = \<lparr>kind = lineplot, x_column = ''Epoch'', y_column = ''ELBO'', linestyle = Some ''--''\<rparr>,
            drawn_level = Some (Text ''Test''),
            drawn_points = [(Some (Number 0), Some (Number 130.0)), (Some (Number 1), Some (Number 110.7))]\<rparr>]
    \<and> marks scatterplot (llk_grid [(0, - 120.5), (1, - 100.2)] [(0, - 130.0), (1, - 110.7)])
        = [(Some (Number 0), Some (Number 120.5)), (Some (Number 1), Some (Number 100.2)),
           (Some (Number 0), Some (Number 130.0)), (Some (Number 1), Some (Number 110.7))]
    \<and> length (marks scatterplot (llk_grid [(0, - 120.5), (1, - 100.2)] [(0, - 130.0), (1, - 110.7)])) = 4
    \<and> marks lineplot (llk_grid [(0, - 120.5), (1, - 100.2)] [(0, - 130.0), (1, - 110.7)])
        = marks scatterplot (llk_grid [(0, - 120.5), (1, - 100.2)] [(0, - 130.0), (1, - 110.7)])"
proof -
  let ?g = "llk_grid [(0, - 120.5), (1, - 100.2)] [(0, - 130.0), (1, - 110.7)]"
  have g: "frame ?g =
     [\<lparr>Epoch = 0, ELBO = 120.5, dataset = ''Train''\<rparr>, \<lparr>Epoch = 1, ELBO = 100.2, dataset = ''Train''\<rparr>,
      \<lparr>Epoch = 0, ELBO = 130.0, dataset = ''Test''\<rparr>, \<lparr>Epoch = 1, ELBO = 110.7, dataset = ''Test''\<rparr>]"
    by (simp add: llk_grid_def llk_chart_def DataFrame_def FacetGrid_def grid_map_def)
  have h: "hue ?g = ''dataset''"
    by (simp add: llk_grid_def llk_chart_def DataFrame_def FacetGrid_def grid_map_def)
  have m: "mapped ?g =
     [\<lparr>kind = scatterplot, x_column = ''Epoch'', y_column = ''ELBO'', linestyle = None\<rparr>,
      \<lparr>kind = lineplot, x_column = ''Epoch'', y_column = ''ELBO'', linestyle = Some ''--''\<rparr>]"
    by (simp add: llk_grid_def llk_chart_def DataFrame_def FacetGrid_def grid_map_def)
  have s: "series ?g = [Some (Text ''Train''), Some (Text ''Test'')]"
    unfolding series_def g h by (simp add: cell_def)
  have d: "drawn ?g
        = [\<lparr>drawn_layer = \<lparr>kind = scatterplot, x_column = ''Epoch'', y_column = ''ELBO'', linestyle = None\<rparr>,
            drawn_level = Some (Text ''Train''),
            drawn_points = [(Some (Number 0), Some (Number 120.5)), (Some (Number 1), Some (Number 100.2))]\<rparr>,
           \<lparr>drawn_layer = \<lparr>kind = scatterplot, x_column = ''Epoch'', y_column = ''ELBO'', linestyle = None\<rparr>,
            drawn_level = Some (Text ''Test''),
            drawn_points = [(Some (Number 0), Some (Number 130.0)), (Some (Number 1), Some (Number 110.7))]\<rparr>,
           \<lparr>drawn_layer = \<lparr>kind = lineplot, x_column = ''Epoch'', y_column = ''ELBO'', linestyle = Some ''--''\<rparr>,
            drawn_level = Some (Text ''Train''),
            drawn_points = [(Some (Number 0), Some (Number 120.5)), (Some (Number 1), Some (Number 100.2))]\<rparr>,
           \<lparr>drawn_layer = \<lparr>kind = lineplot, x_column = ''Epoch'', y_column = ''ELBO'', linestyle = Some ''--''\<rparr>,
            drawn_level = Some (Text ''Test''),
            drawn_points = [(Some (Number 0), Some (Number 130.0)), (Some (Number 1), Some (Number 110.7))]\<rparr>]"
    unfolding drawn_def s m unfolding g h by (simp add: cell_def)
  have ms: "marks scatterplot ?g
        = [(Some (Number 0), Some (Number 120.5)), (Some (Number 1), Some (Number 100.2)),
           (Some (Number 0), Some (Number 130.0)), (Some (Number 1), Some (Number 110.7))]"
    unfolding marks_def d by simp
  have ml: "marks lineplot ?g = marks scatterplot ?g"
    unfolding marks_def d by simp
  have l: "length (marks scatterplot ?g) = 4"
    unfolding ms by simp
  have r: "fst (plot_llk tr te w) = Inr ()
    \<and> events (snd (plot_llk tr te w)) = events w @ [Saved ''./vae_results/test_elbo_vae.png'' (Chart (llk_grid tr te))]
    \<and> (\<forall>p. p \<noteq> [''vae_results''] \<and> p \<noteq> [''vae_results'', ''test_elbo_vae.png'']
          \<longrightarrow> fs (snd (plot_llk tr te w)) p = fs w p)
    \<and> fs (snd (plot_llk tr te w)) [''vae_results'', ''test_elbo_vae.png''] = Some (File (Chart (llk_grid tr te)))"
    for tr te
    using assms by (auto simp: plot_llk_results)
  show ?thesis
    using r [of "[(0, - 120.5), (1, - 100.2)]" "[(0, - 130.0), (1, - 110.7)]"] h s d ms l ml
    by blast
qed

theorem plot_llk_example_witness:
  "(fs w0 [''vae_results''] = None \<or> fs w0 [''vae_results''] = Some Dir)
    \<and> fs w0 [''vae_results'', ''test_elbo_vae.png''] \<noteq> Some Dir
    \<and> (fst (plot_llk [(0, - 120.5), (1, - 100.2)] [(0, - 130.0), (1, - 110.7)] w0) = Inr ()
    \<and> events (snd (plot_llk [(0, - 120.5), (1, - 100.2)] [(0, - 130.0), (1, - 110.7)] w0))
        = events w0 @ [Saved ''./vae_results/test_elbo_vae.png''
             (Chart (llk_grid [(0, - 120.5), (1, - 100.2)] [(0, - 130.0), (1, - 110.7)]))]
    \<and> fs (snd (plot_llk [(0, - 120.5), (1, - 100.2)] [(0, - 130.0), (1, - 110.7)] w0))
          [''vae_results'', ''test_elbo_vae.png'']
        = Some (File (Chart (llk_grid [(0, - 120.5), (1, - 100.2)] [(0, - 130.0), (1, - 110.7)])))
    \<and> hue (llk_grid [(0, - 120.5), (1, - 100.2)] [(0, - 130.0), (1, - 110.7)]) = ''dataset''
    \<and> series (llk_grid [(0, - 120.5), (1, - 100.2)] [(0, - 130.0), (1, - 110.7)])
        = [Some (Text ''Train''), Some (Text ''Test'')]
    \<and> marks scatterplot (llk_grid [(0, - 120.5), (1, - 100.2)] [(0, - 130.0), (1, - 110.7)])
        = [(Some (Number 0), Some (Number 120.5)), (Some (Number 1), Some (Number 100.2)),
           (Some (Number 0), Some (Number 130.0)), (Some (Number 1), Some (Number 110.7))]
    \<and> length (marks scatterplot (llk_grid [(0, - 120.5), (1, - 100.2)] [(0, - 130.0), (1, - 110.7)])) = 4
    \<and> marks lineplot (llk_grid [(0, - 120.5), (1, - 100.2)] [(0, - 130.0), (1, - 110.7)])
        = marks scatterplot (llk_grid [(0, - 120.5), (1, - 100.2)] [(0, - 130.0), (1, - 110.7)]))"
proof -
  have a: "fs w0 [''vae_results''] = None \<or> fs w0 [''vae_results''] = Some Dir"
    by (simp add: w0_def)
  have b: "fs w0 [''vae_results'', ''test_elbo_vae.png''] \<noteq> Some Dir"
    by (simp add: w0_def)
  show ?thesis
    using a b plot_llk_example [OF a b] by blast
qed

subsection \<open>The sample grids\<close>

lemma view_result:
  "view t dims = Inr v \<Longrightarrow> shape v = dims \<and> elems v = elems t \<and> prod_list dims = numel t"
  by (auto simp: view_def split: if_splits option.splits)

lemma view_regrouped:
  assumes "numel t = 784" "compute_stride (shape t) (strides t) [1, 28, 28] \<noteq> None"
  shows "\<exists>v. view t [1, 28, 28] = Inr v"
  using assms by (auto simp: view_def)

lemma sample_image_ok:
  assumes "draw (ambient w) = (Inr (t # ts), x')" "view t [1, 28, 28] = Inr v"
  shows "sample_image draw rr imgs w = (Inr (imgs @ [numpy v]), w\<lparr>ambient := x'\<rparr>)"
  using assms
  by (simp add: sample_image_def bind_io_def call_io_def pure_io_def first_item_def return_io_def)

lemma sample_loop:
  assumes good: "\<And>x. \<exists>t ts x'. draw x = (Inr (t # ts), x') \<and> numel t = 784
            \<and> compute_stride (shape t) (strides t) [1, 28, 28] \<noteq> None"
  shows "\<exists>new w'. for_io (sample_image draw) rs imgs w = (Inr (imgs @ new), w')
      \<and> fs w' = fs w \<and> events w' = events w
      \<and> length new = length rs
      \<and> (\<forall>im\<in>set new. shape im = [1, 28, 28] \<and> numel im = 784
            \<and> (\<exists>x t ts x'. draw x = (Inr (t # ts), x') \<and> elems im = elems t))"
proof (induction rs arbitrary: imgs w)
  case Nil
  show ?case by simp
next
  case (Cons r rs)
  from good [of "ambient w"] obtain t ts x'
    where d: "draw (ambient w) = (Inr (t # ts), x')" and n: "numel t = 784"
      and c: "compute_stride (shape t) (strides t) [1, 28, 28] \<noteq> None"
    by blast
  from view_regrouped [OF n c] obtain v where v: "view t [1, 28, 28] = Inr v"
    by blast
  let ?im = "numpy v"
  from Cons.IH [of "imgs @ [?im]" "w\<lparr>ambient := x'\<rparr>"] obtain new w'
    where run: "for_io (sample_image draw) rs (imgs @ [?im]) (w\<lparr>ambient := x'\<rparr>) = (Inr ((imgs @ [?im]) @ new), w')"
      and keep: "fs w' = fs w" "events w' = events w"
      and len: "length new = length rs"
      and each: "\<forall>im\<in>set new. shape im = [1, 28, 28] \<and> numel im = 784
            \<and> (\<exists>x t ts x'. draw x = (Inr (t # ts), x') \<and> elems im = elems t)"
    by auto
  have "for_io (sample_image draw) (r # rs) imgs w = (Inr (imgs @ (?im # new)), w')"
    using run by (simp add: sample_image_ok [where draw = draw and w = w, OF d v])
  moreover have "shape ?im = [1, 28, 28] \<and> numel ?im = 784
      \<and> (\<exists>x t ts x'. draw x = (Inr (t # ts), x') \<and> elems ?im = elems t)"
    using d n view_result [OF v] by (auto simp: numel_def numpy_def)
  ultimately show ?case
    using keep len each by (intro exI [of _ "?im # new"] exI [of _ w']) simp
qed

lemma label_loop:
  assumes good: "\<And>y x. \<exists>t ts x'. model xs y x = (Inr (t # ts), x') \<and> numel t = 784
            \<and> compute_stride (shape t) (strides t) [1, 28, 28] \<noteq> None"
    and accepts: "\<And>imgs x. \<exists>x'. vis imgs 10 2 x = (Inr (), x')"
  shows "\<exists>calls w'.
      for_io (\<lambda>i _. sample_row (model xs (ys i)) vis) labels u w = (Inr (), w')
      \<and> fs w' = fs w \<and> events w' = events w @ calls
      \<and> list_all2 (\<lambda>i c. \<exists>imgs. c = Images imgs 10 2 \<and> length imgs = 100
            \<and> (\<forall>im\<in>set imgs. shape im = [1, 28, 28] \<and> numel im = 784
                  \<and> (\<exists>x t ts x'. model xs (ys i) x = (Inr (t # ts), x')
                        \<and> elems im = elems t))) labels calls"
proof (induction labels arbitrary: u w)
  case Nil
  show ?case by simp
next
  case (Cons i labels)
  from sample_loop [of "model xs (ys i)" "[0..<100]" "[]" w, OF good] obtain new w1
    where inner: "for_io (sample_image (model xs (ys i))) [0..<100] [] w = (Inr new, w1)"
      and keep1: "fs w1 = fs w" "events w1 = events w"
      and len: "length new = 100"
      and each: "\<forall>im\<in>set new. shape im = [1, 28, 28] \<and> numel im = 784
            \<and> (\<exists>x t ts x'. model xs (ys i) x = (Inr (t # ts), x') \<and> elems im = elems t)"
    by auto
  from accepts [of new "ambient w1"] obtain x2 where acc: "vis new 10 2 (ambient w1) = (Inr (), x2)"
    by blast
  let ?w2 = "w1\<lparr>events := events w1 @ [Images new 10 2], ambient := x2\<rparr>"
  from Cons.IH [of "()" ?w2] obtain calls w'
    where rest: "for_io (\<lambda>i _. sample_row (model xs (ys i)) vis) labels () ?w2 = (Inr (), w')"
      and keep2: "fs w' = fs ?w2" "events w' = events ?w2 @ calls"
      and all: "list_all2 (\<lambda>i c. \<exists>imgs. c = Images imgs 10 2 \<and> length imgs = 100
            \<and> (\<forall>im\<in>set imgs. shape im = [1, 28, 28] \<and> numel im = 784
                  \<and> (\<exists>x t ts x'. model xs (ys i) x = (Inr (t # ts), x')
                        \<and> elems im = elems t))) labels calls"
    by blast
  have "for_io (\<lambda>i _. sample_row (model xs (ys i)) vis) (i # labels) u w = (Inr (), w')"
    using inner rest acc by (simp add: sample_row_def bind_io_def vis_images_def)
  moreover have "events w' = events w @ (Images new 10 2 # calls)" "fs w' = fs w"
    using keep1 keep2 by simp_all
  moreover have "list_all2 (\<lambda>i c. \<exists>imgs. c = Images imgs 10 2 \<and> length imgs = 100
            \<and> (\<forall>im\<in>set imgs. shape im = [1, 28, 28] \<and> numel im = 784
                  \<and> (\<exists>x t ts x'. model xs (ys i) x = (Inr (t # ts), x')
                        \<and> elems im = elems t))) (i # labels) (Images new 10 2 # calls)"
    using all len each by simp
  ultimately show ?case by blast
qed

text \<open>
  Claim C1. Take a model that returns, for every label, a sample whose first item has 784
  elements in a layout that \<open>view\<close> can regroup into \<open>(1, 28, 28)\<close> (a flat row of a batch
  is one), and a session that accepts the calls. Then \<open>plot_conditional_samples_ssvae\<close>
  succeeds and issues exactly ten calls of \<open>vis.images\<close>, one per label \<open>0..9\<close> in this
  order. Each call carries 100 images (with the arguments 10 and 2); each image has the
  shape \<open>(1, 28, 28)\<close> and holds the 784 elements of the first item of a sample drawn for
  the label of its call. No file is touched.
\<close>

theorem conditional_grid_calls:
  assumes "\<And>xs y x. \<exists>t ts x'. model xs y x = (Inr (t # ts), x') \<and> numel t = 784
            \<and> compute_stride (shape t) (strides t) [1, 28, 28] \<noteq> None"
    and "\<And>imgs x. \<exists>x'. vis imgs 10 2 x = (Inr (), x')"
  shows "\<exists>calls w'. plot_conditional_samples_ssvae model vis w = (Inr (), w')
      \<and> fs w' = fs w \<and> events w' = events w @ calls
      \<and> list_all2 (\<lambda>i c. \<exists>imgs. c = Images imgs 10 2 \<and> length imgs = 100
            \<and> (\<forall>im\<in>set imgs. shape im = [1, 28, 28] \<and> numel im = 784
                  \<and> (\<exists>x t ts x'. model (zeros [1, 784]) (ys i) x = (Inr (t # ts), x')
                        \<and> elems im = elems t))) [0..<10] calls"
  unfolding plot_conditional_samples_ssvae_def Let_def
  by (rule label_loop) (rule assms)+

theorem conditional_grid_calls_witness:
  "(\<forall>xs y x. \<exists>t ts x'. still_model xs y x = (Inr (t # ts), x') \<and> numel t = 784
            \<and> compute_stride (shape t) (strides t) [1, 28, 28] \<noteq> None)
   \<and> (\<forall>imgs x. \<exists>x'. quiet_session imgs 10 2 x = (Inr (), x'))
   \<and> fst (plot_conditional_samples_ssvae still_model quiet_session w0) = Inr ()
   \<and> length (events (snd (plot_conditional_samples_ssvae still_model quiet_session w0))) = 10"
proof -
  have a: "\<exists>t ts x'. still_model xs y x = (Inr (t # ts), x') \<and> numel t = 784
            \<and> compute_stride (shape t) (strides t) [1, 28, 28] \<noteq> None" for xs y x
    by (simp add: still_model_def numel_def compute_stride_def)
  have b: "\<exists>x'. quiet_session imgs 10 2 x = (Inr (), x')" for imgs x
    by (simp add: quiet_session_def)
  from conditional_grid_calls [of still_model quiet_session w0, OF a b] obtain calls w'
    where "plot_conditional_samples_ssvae still_model quiet_session w0 = (Inr (), w')"
      and "events w' = events w0 @ calls" and "length calls = length [0..<10::nat]"
    by (auto dest: list_all2_lengthD)
  then show ?thesis using a b by (simp add: w0_def)
qed

subsection \<open>The embedding plot\<close>

lemma str_nat_digit: "n < 10 \<Longrightarrow> str_nat n = [''0123456789'' ! n]"
  by (subst str_nat.simps) simp

lemma digit_no_slash: "n < 10 \<Longrightarrow> ''0123456789'' ! n \<noteq> CHR ''/''"
proof -
  assume "n < 10"
  then have "''0123456789'' ! n \<in> set ''0123456789''"
    by (intro nth_mem) simp
  then show ?thesis by auto
qed

lemma digit_inj: "i < 10 \<Longrightarrow> j < 10 \<Longrightarrow> ''0123456789'' ! i = ''0123456789'' ! j \<Longrightarrow> i = j"
proof -
  have "distinct ''0123456789''" by simp
  then show "i < 10 \<Longrightarrow> j < 10 \<Longrightarrow> ''0123456789'' ! i = ''0123456789'' ! j \<Longrightarrow> i = j"
    by (simp add: nth_eq_iff_index_eq)
qed

lemma class_file_inj:
  "i < 10 \<Longrightarrow> j < 10 \<Longrightarrow> class_file name i = class_file name j \<Longrightarrow> i = j"
  by (auto simp: class_file_def str_nat_digit dest: digit_inj)

lemma class_file_not_aggregate: "class_file name i \<noteq> aggregate_file name"
  by (simp add: class_file_def aggregate_file_def)

lemma class_file_plain:
  assumes "CHR ''/'' \<notin> set (str_name name)" "ic < 10"
  shows "CHR ''/'' \<notin> set (class_file name ic)" "class_file name ic \<noteq> []"
    "class_file name ic \<noteq> ''.''" "class_file name ic \<noteq> ''..''"
  using assms digit_no_slash [of ic]
  by (auto simp: class_file_def str_nat_digit Cons_eq_append_conv)

lemma aggregate_file_plain:
  assumes "CHR ''/'' \<notin> set (str_name name)"
  shows "CHR ''/'' \<notin> set (aggregate_file name)" "aggregate_file name \<noteq> []"
    "aggregate_file name \<noteq> ''.''" "aggregate_file name \<noteq> ''..''"
  using assms by (auto simp: aggregate_file_def Cons_eq_append_conv)

lemma for_io_snoc:
  "for_io body (is @ [i]) s w =
     (case for_io body is s w of
        (Inl e, w') \<Rightarrow> (Inl e, w')
      | (Inr s', w') \<Rightarrow> body i s' w')"
  by (induction "is" arbitrary: s w) (auto split: prod.splits sum.splits)

lemma column_equals_ok:
  "shape a = [n, m] \<Longrightarrow> ic < m \<Longrightarrow>
     column_equals a ic v = Inr (map (\<lambda>r. elems a ! (r * m + ic) = v) [0..<n])"
  by (simp add: column_equals_def)

lemma set_column_ok:
  "shape a = [n, m] \<Longrightarrow> ic < m \<Longrightarrow>
     set_column (zeros (shape a)) ic v
       = Inr ((zeros (shape a))\<lparr>elems := fold (\<lambda>r es. es[r * m + ic := v]) [0..<n] (elems (zeros (shape a)))\<rparr>)"
  by (simp add: set_column_def zeros_def)

lemma masked_column_ok:
  "shape z = [n, c] \<Longrightarrow> length sel = n \<Longrightarrow> j < c \<Longrightarrow>
     masked_column z sel j = Inr (map (\<lambda>r. elems z ! (r * c + j)) (filter (\<lambda>r. sel ! r) [0..<n]))"
  by (simp add: masked_column_def)

lemma selected_ok:
  assumes "shape classes = [n, m]" "ic < m" "shape z = [n, c]" "j < c"
  shows "masked_column z (map (\<lambda>r. elems classes ! (r * m + ic) = 1) [0..<n]) j
           = Inr (selected z classes ic j)"
  using assms by (simp add: selected_def column_equals_ok masked_column_ok)

lemma savefig_class:
  assumes ic: "ic < 10"
    and name: "CHR ''/'' \<notin> set (str_name name)"
    and dir: "fs w [''vae_results''] = Some Dir"
    and tgt: "fs w [''vae_results'', class_file name ic] \<noteq> Some Dir"
  shows "savefig (class_path name ic) pic w =
      (Inr (), w\<lparr>fs := (fs w)([''vae_results'', class_file name ic] \<mapsto> File pic),
                  events := events w @ [Saved (class_path name ic) pic]\<rparr>)"
  unfolding class_path_def savefig_results [OF class_file_plain [OF name ic]]
  using dir tgt by simp

lemma savefig_aggregate:
  assumes name: "CHR ''/'' \<notin> set (str_name name)"
    and dir: "fs w [''vae_results''] = Some Dir"
    and tgt: "fs w [''vae_results'', aggregate_file name] \<noteq> Some Dir"
  shows "savefig (aggregate_path name) pic w =
      (Inr (), w\<lparr>fs := (fs w)([''vae_results'', aggregate_file name] \<mapsto> File pic),
                  events := events w @ [Saved (aggregate_path name) pic]\<rparr>)"
  unfolding aggregate_path_def savefig_results [OF aggregate_file_plain [OF name]]
  using dir tgt by simp

lemma tsne_class_paths:
  "tsne_class z classes name ic fig =
     bind_io (pure_io (set_column (zeros (shape classes)) ic 1)) (\<lambda>ind_vec.
     bind_io (pure_io (column_equals classes ic 1)) (\<lambda>ind_class.
     bind_io (pure_io (masked_column z ind_class 0)) (\<lambda>x.
     bind_io (pure_io (masked_column z ind_class 1)) (\<lambda>y.
       let fig1 = scatter x y 10 ic fig;
           fig2 = set_title ''Latent Variable T-SNE per Class'' fig1
       in bind_io (savefig (class_path name ic) (Figure fig2)) (\<lambda>_.
          return_io fig2)))))"
  unfolding tsne_class_def class_path_def class_file_def ..

lemma tsne_class_ok:
  assumes cl: "shape classes = [n, m]" "ic < m" and z: "shape z = [n, c]" "2 \<le> c"
    and ic: "ic < 10"
    and name: "CHR ''/'' \<notin> set (str_name name)"
    and dir: "fs w [''vae_results''] = Some Dir"
    and tgt: "fs w [''vae_results'', class_file name ic] \<noteq> Some Dir"
  shows "tsne_class z classes name ic fig w =
     (Inr \<lparr>layers = layers fig @ [class_layer z classes ic],
           title_of = ''Latent Variable T-SNE per Class''\<rparr>,
      w\<lparr>fs := (fs w)([''vae_results'', class_file name ic] \<mapsto>
             File (Figure \<lparr>layers = layers fig @ [class_layer z classes ic],
                           title_of = ''Latent Variable T-SNE per Class''\<rparr>)),
        events := events w @ [Saved (class_path name ic)
             (Figure \<lparr>layers = layers fig @ [class_layer z classes ic],
                           title_of = ''Latent Variable T-SNE per Class''\<rparr>)]\<rparr>)"
proof -
  have c0: "0 < c" and c1: "1 < c" using z by simp_all
  have m0: "masked_column z (map (\<lambda>r. elems classes ! (r * m + ic) = 1) [0..<n]) 0
      = Inr (selected z classes ic 0)"
    by (rule selected_ok [OF cl z(1) c0])
  have m1: "masked_column z (map (\<lambda>r. elems classes ! (r * m + ic) = 1) [0..<n]) (Suc 0)
      = Inr (selected z classes ic (Suc 0))"
    using selected_ok [OF cl z(1) c1] by simp
  show ?thesis
    by (cases fig) (simp add: tsne_class_paths bind_io_def pure_io_def return_io_def Let_def
        set_column_ok [OF cl] column_equals_ok [OF cl] m0 m1
        savefig_class [OF ic name dir tgt]
        scatter_def set_title_def class_layer_def)
qed

lemma figure_upto_Suc:
  "\<lparr>layers = layers (figure_upto z classes k) @ [class_layer z classes k],
    title_of = ''Latent Variable T-SNE per Class''\<rparr> = figure_upto z classes (Suc k)"
  by (simp add: figure_upto_def new_figure_def)

lemma tsne_loop:
  assumes cl: "shape classes = [n, m]" and z: "shape z = [n, c]" "2 \<le> c"
    and name: "CHR ''/'' \<notin> set (str_name name)"
    and dir: "fs w [''vae_results''] = Some Dir"
    and tgt: "\<forall>ic<10. fs w [''vae_results'', class_file name ic] \<noteq> Some Dir"
    and k: "k \<le> 10" "k \<le> m"
  shows "\<exists>w'. for_io (tsne_class z classes name) [0..<k] new_figure w
          = (Inr (figure_upto z classes k), w')
     \<and> ambient w' = ambient w
     \<and> events w' = events w @ map (\<lambda>ic. Saved (class_path name ic)
                                   (Figure (figure_upto z classes (Suc ic)))) [0..<k]
     \<and> fs w' [''vae_results''] = Some Dir
     \<and> (\<forall>ic<k. fs w' [''vae_results'', class_file name ic]
                   = Some (File (Figure (figure_upto z classes (Suc ic)))))
     \<and> (\<forall>p. (\<forall>ic<k. p \<noteq> [''vae_results'', class_file name ic]) \<longrightarrow> fs w' p = fs w p)"
  using k
proof (induction k)
  case 0
  show ?case using dir by (simp add: figure_upto_def)
next
  case (Suc k)
  then have k: "k < 10" "k < m" by simp_all
  from Suc obtain w'
    where run: "for_io (tsne_class z classes name) [0..<k] new_figure w
          = (Inr (figure_upto z classes k), w')"
      and amb: "ambient w' = ambient w"
      and ev: "events w' = events w @ map (\<lambda>ic. Saved (class_path name ic)
                                   (Figure (figure_upto z classes (Suc ic)))) [0..<k]"
      and dir': "fs w' [''vae_results''] = Some Dir"
      and old: "\<forall>ic<k. fs w' [''vae_results'', class_file name ic]
                   = Some (File (Figure (figure_upto z classes (Suc ic))))"
      and other: "\<forall>p. (\<forall>ic<k. p \<noteq> [''vae_results'', class_file name ic]) \<longrightarrow> fs w' p = fs w p"
    by auto
  have fresh: "\<forall>ic<k. class_file name k \<noteq> class_file name ic"
  proof (intro allI impI)
    fix ic assume "ic < k"
    then have "ic < 10" "k \<noteq> ic" using k(1) by simp_all
    then show "class_file name k \<noteq> class_file name ic"
      using class_file_inj [of k ic name] k(1) by blast
  qed
  then have "fs w' [''vae_results'', class_file name k] = fs w [''vae_results'', class_file name k]"
    using other by simp
  then have tgt': "fs w' [''vae_results'', class_file name k] \<noteq> Some Dir"
    using tgt k(1) by simp
  let ?w'' = "w'\<lparr>fs := (fs w')([''vae_results'', class_file name k] \<mapsto>
             File (Figure (figure_upto z classes (Suc k)))),
        events := events w' @ [Saved (class_path name k)
             (Figure (figure_upto z classes (Suc k)))]\<rparr>"
  have step: "tsne_class z classes name k (figure_upto z classes k) w'
      = (Inr (figure_upto z classes (Suc k)), ?w'')"
    using tsne_class_ok [OF cl k(2) z k(1) name dir' tgt', of "figure_upto z classes k"]
    unfolding figure_upto_Suc .
  have "for_io (tsne_class z classes name) [0..<Suc k] new_figure w
      = (Inr (figure_upto z classes (Suc k)), ?w'')"
    using run step by (simp add: for_io_snoc)
  moreover have "ambient ?w'' = ambient w"
    using amb by simp
  moreover have "events ?w'' = events w @ map (\<lambda>ic. Saved (class_path name ic)
                                   (Figure (figure_upto z classes (Suc ic)))) [0..<Suc k]"
    using ev by simp
  moreover have "fs ?w'' [''vae_results''] = Some Dir"
    using dir' by simp
  moreover have "\<forall>ic<Suc k. fs ?w'' [''vae_results'', class_file name ic]
                   = Some (File (Figure (figure_upto z classes (Suc ic))))"
    using old fresh by (auto simp: less_Suc_eq)
  moreover have "\<forall>p. (\<forall>ic<Suc k. p \<noteq> [''vae_results'', class_file name ic]) \<longrightarrow> fs ?w'' p = fs w p"
    using other by (auto simp: less_Suc_eq)
  ultimately show ?case by (intro exI [of _ ?w'']) (intro conjI)
qed

lemma plot_tsne_paths:
  "plot_tsne TSNE z_loc classes name =
     bind_io (call_io (TSNE 2 (Some 0) z_loc)) (\<lambda>z_embed.
     bind_io (for_io (tsne_class z_embed classes name) [0..<10] new_figure) (\<lambda>fig.
     savefig (aggregate_path name) (Figure fig)))"
  unfolding plot_tsne_def aggregate_path_def aggregate_file_def ..

lemma plot_tsne_results:
  assumes red: "TSNE 2 (Some 0) z_loc (ambient w) = (Inr z, x')"
    and cl: "shape classes = [n, m]" "10 \<le> m" and z: "shape z = [n, c]" "2 \<le> c"
    and name: "CHR ''/'' \<notin> set (str_name name)"
    and dir: "fs w [''vae_results''] = Some Dir"
    and tgt: "\<forall>ic<10. fs w [''vae_results'', class_file name ic] \<noteq> Some Dir"
    and agg: "fs w [''vae_results'', aggregate_file name] \<noteq> Some Dir"
  shows "\<exists>w'. plot_tsne TSNE z_loc classes name w = (Inr (), w')
     \<and> ambient w' = x'
     \<and> events w' = events w @ map (\<lambda>ic. Saved (class_path name ic)
                                   (Figure (figure_upto z classes (Suc ic)))) [0..<10]
                     @ [Saved (aggregate_path name) (Figure (figure_upto z classes 10))]
     \<and> fs w' [''vae_results''] = Some Dir
     \<and> (\<forall>ic<10. fs w' [''vae_results'', class_file name ic]
                   = Some (File (Figure (figure_upto z classes (Suc ic)))))
     \<and> fs w' [''vae_results'', aggregate_file name] = Some (File (Figure (figure_upto z classes 10)))
     \<and> (\<forall>p. (\<forall>ic<10. p \<noteq> [''vae_results'', class_file name ic])
             \<and> p \<noteq> [''vae_results'', aggregate_file name] \<longrightarrow> fs w' p = fs w p)"
proof -
  let ?w1 = "w\<lparr>ambient := x'\<rparr>"
  have dir1: "fs ?w1 [''vae_results''] = Some Dir"
    and tgt1: "\<forall>ic<10. fs ?w1 [''vae_results'', class_file name ic] \<noteq> Some Dir"
    using dir tgt by simp_all
  from tsne_loop [OF cl(1) z name dir1 tgt1 order_refl cl(2)] obtain w2
    where run: "for_io (tsne_class z classes name) [0..<10] new_figure ?w1
          = (Inr (figure_upto z classes 10), w2)"
      and amb: "ambient w2 = ambient ?w1"
      and ev: "events w2 = events ?w1 @ map (\<lambda>ic. Saved (class_path name ic)
                                   (Figure (figure_upto z classes (Suc ic)))) [0..<10]"
      and dir2: "fs w2 [''vae_results''] = Some Dir"
      and files: "\<forall>ic<10. fs w2 [''vae_results'', class_file name ic]
                   = Some (File (Figure (figure_upto z classes (Suc ic))))"
      and other: "\<forall>p. (\<forall>ic<10. p \<noteq> [''vae_results'', class_file name ic]) \<longrightarrow> fs w2 p = fs ?w1 p"
    by blast
  have differ: "\<forall>ic<10. [''vae_results'', aggregate_file name] \<noteq> [''vae_results'', class_file name ic]"
    using class_file_not_aggregate [of name] by (simp add: eq_commute)
  then have "fs w2 [''vae_results'', aggregate_file name] = fs ?w1 [''vae_results'', aggregate_file name]"
    using other by blast
  then have agg2: "fs w2 [''vae_results'', aggregate_file name] \<noteq> Some Dir"
    using agg by simp
  let ?pic = "Figure (figure_upto z classes 10)"
  let ?w3 = "w2\<lparr>fs := (fs w2)([''vae_results'', aggregate_file name] \<mapsto> File ?pic),
                 events := events w2 @ [Saved (aggregate_path name) ?pic]\<rparr>"
  have "call_io (TSNE 2 (Some 0) z_loc) w = (Inr z, ?w1)"
    using red by (simp add: call_io_def)
  then have "plot_tsne TSNE z_loc classes name w = (Inr (), ?w3)"
    using run savefig_aggregate [OF name dir2 agg2, of ?pic]
    by (simp add: plot_tsne_paths bind_io_def)
  moreover have "ambient ?w3 = x'"
    using amb by simp
  moreover have "events ?w3 = events w @ map (\<lambda>ic. Saved (class_path name ic)
                                   (Figure (figure_upto z classes (Suc ic)))) [0..<10]
                     @ [Saved (aggregate_path name) ?pic]"
    using ev by simp
  moreover have "fs ?w3 [''vae_results''] = Some Dir"
    using dir2 by simp
  moreover have "\<forall>ic<10. fs ?w3 [''vae_results'', class_file name ic]
                   = Some (File (Figure (figure_upto z classes (Suc ic))))"
    using files differ by (simp add: eq_commute)
  moreover have "fs ?w3 [''vae_results'', aggregate_file name] = Some (File ?pic)"
    by simp
  moreover have "\<forall>p. (\<forall>ic<10. p \<noteq> [''vae_results'', class_file name ic])
             \<and> p \<noteq> [''vae_results'', aggregate_file name] \<longrightarrow> fs ?w3 p = fs w p"
    using other by simp
  ultimately show ?thesis by (intro exI [of _ ?w3]) (intro conjI)
qed

lemma saved_paths_append: "saved_paths (es @ es2) = saved_paths es @ saved_paths es2"
  by (induction es rule: saved_paths.induct) simp_all

lemma savefig_cases:
  "savefig path pic w = (r, w') \<Longrightarrow>
     (\<exists>e. r = Inl e \<and> w' = w) \<or>
     (r = Inr () \<and> events w' = events w @ [Saved path pic] \<and> ambient w' = ambient w)"
  by (auto simp: savefig_def split: sum.splits)

lemma tsne_class_cases:
  assumes "tsne_class z classes name ic fig w = (r, w')"
  shows "(\<exists>e. r = Inl e \<and> w' = w) \<or>
     (\<exists>fig'. r = Inr fig' \<and> events w' = events w @ [Saved (class_path name ic) (Figure fig')]
        \<and> ambient w' = ambient w)"
proof -
  have sv: "(\<exists>e. r0 = Inl e \<and> v = w) \<or>
     (r0 = Inr () \<and> events v = events w @ [Saved (class_path name ic) pic] \<and> ambient v = ambient w)"
    if "savefig (class_path name ic) pic w = (r0, v)" for pic r0 v
    using savefig_cases [OF that] .
  show ?thesis
    using assms unfolding tsne_class_paths bind_io_def pure_io_def return_io_def Let_def
    by (auto split: sum.splits prod.splits dest!: sv)
qed

lemma tsne_loop_saved:
  assumes "for_io (tsne_class z classes name) ics fig w = (r, w')"
  shows "\<exists>es j. events w' = events w @ es \<and> ambient w' = ambient w
      \<and> length es = j \<and> j \<le> length ics
      \<and> saved_paths es = take j (map (class_path name) ics)
      \<and> ((\<exists>f. r = Inr f) \<longrightarrow> j = length ics)"
  using assms
proof (induction ics arbitrary: fig w)
  case Nil
  then show ?case by auto
next
  case (Cons ic ics)
  obtain r1 w1 where step: "tsne_class z classes name ic fig w = (r1, w1)"
    by (cases "tsne_class z classes name ic fig w")
  from tsne_class_cases [OF step] show ?case
  proof (elim disjE exE conjE)
    fix e assume "r1 = Inl e" "w1 = w"
    then have "r = Inl e" "w' = w" using Cons.prems step by simp_all
    then show ?thesis by simp
  next
    fix fig' assume r1: "r1 = Inr fig'"
      and ev: "events w1 = events w @ [Saved (class_path name ic) (Figure fig')]"
      and amb: "ambient w1 = ambient w"
    then have "for_io (tsne_class z classes name) ics fig' w1 = (r, w')"
      using Cons.prems step by simp
    from Cons.IH [OF this] obtain es j
      where "events w' = events w1 @ es" "ambient w' = ambient w1" "length es = j" "j \<le> length ics"
        "saved_paths es = take j (map (class_path name) ics)"
        "(\<exists>f. r = Inr f) \<longrightarrow> j = length ics"
      by blast
    then show ?thesis
      using ev amb
      by (intro exI [of _ "Saved (class_path name ic) (Figure fig') # es"] exI [of _ "Suc j"]) simp
  qed
qed

lemma plot_tsne_saved:
  assumes "plot_tsne TSNE z_loc classes name w = (r, w')"
  shows "\<exists>es j. events w' = events w @ es \<and> length es = j \<and> j \<le> 11
      \<and> saved_paths es = take j (map (class_path name) [0..<10] @ [aggregate_path name])
      \<and> (r = Inr () \<longrightarrow> j = 11)"
proof -
  obtain rz x' where red: "TSNE 2 (Some 0) z_loc (ambient w) = (rz, x')"
    by (cases "TSNE 2 (Some 0) z_loc (ambient w)")
  let ?w1 = "w\<lparr>ambient := x'\<rparr>"
  have call: "call_io (TSNE 2 (Some 0) z_loc) w = (rz, ?w1)"
    using red by (simp add: call_io_def)
  show ?thesis
  proof (cases rz)
    case (Inl e)
    then have "r = Inl e" "w' = ?w1"
      using assms call by (simp_all add: plot_tsne_paths bind_io_def)
    then show ?thesis by simp
  next
    case (Inr z)
    obtain r2 w2 where loop: "for_io (tsne_class z classes name) [0..<10] new_figure ?w1 = (r2, w2)"
      by (cases "for_io (tsne_class z classes name) [0..<10] new_figure ?w1")
    from tsne_loop_saved [OF loop] obtain es j
      where ev: "events w2 = events w @ es" and len: "length es = j" "j \<le> 10"
        and paths: "saved_paths es = take j (map (class_path name) [0..<10])"
        and full: "(\<exists>f. r2 = Inr f) \<longrightarrow> j = 10"
      by auto
    show ?thesis
    proof (cases r2)
      case (Inl e)
      then have "r = Inl e" "w' = w2"
        using assms call Inr loop by (simp_all add: plot_tsne_paths bind_io_def)
      then show ?thesis
        using ev len paths by (intro exI [of _ es] exI [of _ j]) simp
    next
      case (Inr fig)
      then have j: "j = 10" using full by simp
      have sv: "savefig (aggregate_path name) (Figure fig) w2 = (r, w')"
        using assms call \<open>rz = Inr z\<close> loop Inr by (simp add: plot_tsne_paths bind_io_def)
      from savefig_cases [OF sv] show ?thesis
      proof (elim disjE exE conjE)
        fix e assume "r = Inl e" "w' = w2"
        then show ?thesis
          using ev len paths j by (intro exI [of _ es] exI [of _ j]) simp
      next
        assume "r = Inr ()" "events w' = events w2 @ [Saved (aggregate_path name) (Figure fig)]"
        then show ?thesis
          using ev len paths j
          by (intro exI [of _ "es @ [Saved (aggregate_path name) (Figure fig)]"] exI [of _ 11])
             (simp add: saved_paths_append)
      qed
    qed
  qed
qed

lemma absent_class_empty:
  assumes "\<not> occurs classes ic"
  shows "selected z classes ic j = []"
proof (cases "column_equals classes ic 1")
  case (Inl e)
  then show ?thesis by (simp add: selected_def)
next
  case (Inr sel)
  then have none: "\<forall>r<length sel. \<not> sel ! r"
    using assms by (auto simp: occurs_def in_set_conv_nth)
  show ?thesis
  proof (cases "masked_column z sel j")
    case (Inl e)
    then show ?thesis using Inr by (simp add: selected_def)
  next
    case (Inr v)
    then have "v = []"
      using none by (auto simp: masked_column_def filter_empty_conv split: list.splits if_splits)
    then show ?thesis using Inr \<open>column_equals classes ic 1 = Inr sel\<close> by (simp add: selected_def)
  qed
qed

lemma plot_tsne_success_paths:
  assumes "fst (plot_tsne TSNE z_loc classes name w) = Inr ()"
  shows "saved_paths (new_events w (snd (plot_tsne TSNE z_loc classes name w)))
      = map (class_path name) [0..<10] @ [aggregate_path name]"
proof -
  obtain r w' where run: "plot_tsne TSNE z_loc classes name w = (r, w')"
    by (cases "plot_tsne TSNE z_loc classes name w")
  then have "r = Inr ()" using assms by simp
  with plot_tsne_saved [OF run] obtain es
    where "events w' = events w @ es"
      "saved_paths es = take 11 (map (class_path name) [0..<10] @ [aggregate_path name])"
    by auto
  then show ?thesis using run by (simp add: new_events_def)
qed

lemma class_path_inj: "i < 10 \<Longrightarrow> j < 10 \<Longrightarrow> class_path name i = class_path name j \<Longrightarrow> i = j"
  using class_file_inj [of i j name] by (simp add: class_path_def)

lemma paths_distinct: "distinct (map (class_path name) [0..<10] @ [aggregate_path name])"
proof -
  have "inj_on (class_path name) (set [0..<10])"
    by (rule inj_onI) (auto dest: class_path_inj)
  then have "distinct (map (class_path name) [0..<10])"
    by (simp add: distinct_map)
  moreover have "aggregate_path name \<noteq> class_path name ic" for ic
    using class_file_not_aggregate [of name ic] by (simp add: class_path_def aggregate_path_def)
  then have "aggregate_path name \<notin> set (map (class_path name) [0..<10])"
    by auto
  ultimately show ?thesis by simp
qed

lemma demo_run:
  shows "two_points 2 (Some 0) (zeros [2, 3]) (ambient results_world)
           = (Inr \<lparr>shape = [2, 2], elems = [1, 2, 3, 4]\<rparr>, ())"
    and "shape two_labels = [2, 10]"
    and "shape \<lparr>shape = [2, 2], elems = [1, 2, 3, 4]\<rparr> = [2, 2]"
    and "CHR ''/'' \<notin> set (str_name (Some ''VAE''))"
    and "fs results_world [''vae_results''] = Some Dir"
    and "\<forall>ic<10. fs results_world [''vae_results'', class_file (Some ''VAE'') ic] \<noteq> Some Dir"
    and "fs results_world [''vae_results'', aggregate_file (Some ''VAE'')] \<noteq> Some Dir"
  by (simp_all add: two_points_def two_labels_def results_world_def str_name_def)

lemma demo_run_ok:
  "fst (plot_tsne two_points (zeros [2, 3]) two_labels (Some ''VAE'') results_world) = Inr ()"
proof -
  from plot_tsne_results [where TSNE = two_points and z_loc = "zeros [2, 3]"
      and w = results_world and m = 10 and c = 2,
      OF demo_run(1) demo_run(2) order_refl demo_run(3) order_refl
      demo_run(4) demo_run(5) demo_run(6) demo_run(7)]
  obtain w' where "plot_tsne two_points (zeros [2, 3]) two_labels (Some ''VAE'') results_world
      = (Inr (), w')"
    by blast
  then show ?thesis by simp
qed

lemma two_labels_classes: "distinct_classes two_labels = 2" "\<not> occurs two_labels 0"
  by code_simp+

text \<open>
  Claim C2, as amended. The claim says that labels with \<open>k\<close> distinct classes give \<open>k + 1\<close>
  files. The loop of \<open>plot_tsne\<close> runs over the fixed indices \<open>0..9\<close>, so every run that
  completes saves exactly eleven figures, at eleven different paths: the ten per-class
  paths in order, then the aggregate path. That is \<open>k + 1\<close> exactly when \<open>k = 10\<close>. The
  counterexample below is a run on labels with two distinct classes that saves eleven.
\<close>

theorem plot_tsne_file_count:
  assumes "fst (plot_tsne TSNE z_loc classes name w) = Inr ()"
  shows "saved_paths (new_events w (snd (plot_tsne TSNE z_loc classes name w)))
        = map (class_path name) [0..<10] @ [aggregate_path name]
    \<and> length (saved_paths (new_events w (snd (plot_tsne TSNE z_loc classes name w)))) = 11
    \<and> distinct (saved_paths (new_events w (snd (plot_tsne TSNE z_loc classes name w))))
    \<and> ((length (saved_paths (new_events w (snd (plot_tsne TSNE z_loc classes name w))))
           = distinct_classes classes + 1) = (distinct_classes classes = 10))"
  unfolding plot_tsne_success_paths [OF assms]
  using paths_distinct [of name] by auto

theorem plot_tsne_file_count_witness:
  "fst (plot_tsne two_points (zeros [2, 3]) two_labels (Some ''VAE'') results_world) = Inr ()
    \<and> length (saved_paths (new_events results_world
          (snd (plot_tsne two_points (zeros [2, 3]) two_labels (Some ''VAE'') results_world)))) = 11"
  using plot_tsne_file_count [OF demo_run_ok] demo_run_ok by blast

theorem plot_tsne_file_count_counterexample:
  "distinct_classes two_labels = 2
    \<and> fst (plot_tsne two_points (zeros [2, 3]) two_labels (Some ''VAE'') results_world) = Inr ()
    \<and> length (saved_paths (new_events results_world
          (snd (plot_tsne two_points (zeros [2, 3]) two_labels (Some ''VAE'') results_world)))) = 11
    \<and> length (saved_paths (new_events results_world
          (snd (plot_tsne two_points (zeros [2, 3]) two_labels (Some ''VAE'') results_world))))
        \<noteq> distinct_classes two_labels + 1"
  unfolding plot_tsne_success_paths [OF demo_run_ok] two_labels_classes
  using demo_run_ok by simp

lemma figure_upto_layers:
  "length (layers (figure_upto z classes (Suc ic))) = Suc ic"
  "layers (figure_upto z classes (Suc ic)) ! ic = class_layer z classes ic"
  by (simp_all add: figure_upto_def nth_append)

text \<open>
  Claim C10. \<open>plot_tsne\<close> iterates over the fixed class indices \<open>0..9\<close>, whichever classes
  occur in the labels. On an input that it accepts (the reduction returns an array with a
  row per observation and at least two columns, the labels are indicator rows with at
  least ten columns, the name holds no slash, \<open>vae_results\<close> exists and none of the eleven
  targets is a directory) the run succeeds and saves exactly the ten per-class files and
  the aggregate file, eleven in all. The file of class \<open>ic\<close> holds the layers of the
  classes \<open>0..ic\<close>; for a class that selects no point the file is written all the same,
  and its layer is empty.
\<close>

theorem plot_tsne_fixed_classes:
  assumes "TSNE 2 (Some 0) z_loc (ambient w) = (Inr z, x')"
    and "shape classes = [n, m]" "10 \<le> m" and "shape z = [n, c]" "2 \<le> c"
    and "CHR ''/'' \<notin> set (str_name name)"
    and "fs w [''vae_results''] = Some Dir"
    and "\<forall>ic<10. fs w [''vae_results'', class_file name ic] \<noteq> Some Dir"
    and "fs w [''vae_results'', aggregate_file name] \<noteq> Some Dir"
  shows "fst (plot_tsne TSNE z_loc classes name w) = Inr ()
    \<and> saved_paths (new_events w (snd (plot_tsne TSNE z_loc classes name w)))
        = map (class_path name) [0..<10] @ [aggregate_path name]
    \<and> length (saved_paths (new_events w (snd (plot_tsne TSNE z_loc classes name w)))) = 11
    \<and> (\<forall>ic<10.
          fs (snd (plot_tsne TSNE z_loc classes name w)) [''vae_results'', class_file name ic]
            = Some (File (Figure (figure_upto z classes (Suc ic))))
          \<and> length (layers (figure_upto z classes (Suc ic))) = Suc ic
          \<and> layers (figure_upto z classes (Suc ic)) ! ic = class_layer z classes ic
          \<and> (\<not> occurs classes ic \<longrightarrow>
                xs_of (class_layer z classes ic) = [] \<and> ys_of (class_layer z classes ic) = []))
    \<and> fs (snd (plot_tsne TSNE z_loc classes name w)) [''vae_results'', aggregate_file name]
        = Some (File (Figure (figure_upto z classes 10)))"
proof -
  from plot_tsne_results [where TSNE = TSNE and z_loc = z_loc and w = w, OF assms] obtain w'
    where run: "plot_tsne TSNE z_loc classes name w = (Inr (), w')"
      and files: "\<forall>ic<10. fs w' [''vae_results'', class_file name ic]
                   = Some (File (Figure (figure_upto z classes (Suc ic))))"
      and agg: "fs w' [''vae_results'', aggregate_file name]
                   = Some (File (Figure (figure_upto z classes 10)))"
    by blast
  have ok: "fst (plot_tsne TSNE z_loc classes name w) = Inr ()"
    using run by simp
  have paths: "saved_paths (new_events w (snd (plot_tsne TSNE z_loc classes name w)))
        = map (class_path name) [0..<10] @ [aggregate_path name]"
    by (rule plot_tsne_success_paths [OF ok])
  have empty: "xs_of (class_layer z classes ic) = [] \<and> ys_of (class_layer z classes ic) = []"
    if "\<not> occurs classes ic" for ic
    using that by (simp add: class_layer_def absent_class_empty)
  show ?thesis
    unfolding paths using ok files agg empty run
    by (simp add: figure_upto_layers)
qed

theorem plot_tsne_fixed_classes_witness:
  "fst (plot_tsne two_points (zeros [2, 3]) two_labels (Some ''VAE'') results_world) = Inr ()
    \<and> saved_paths (new_events results_world
          (snd (plot_tsne two_points (zeros [2, 3]) two_labels (Some ''VAE'') results_world)))
        = map (class_path (Some ''VAE'')) [0..<10] @ [aggregate_path (Some ''VAE'')]
    \<and> \<not> occurs two_labels 0
    \<and> fs (snd (plot_tsne two_points (zeros [2, 3]) two_labels (Some ''VAE'') results_world))
          [''vae_results'', class_file (Some ''VAE'') 0]
        = Some (File (Figure (figure_upto \<lparr>shape = [2, 2], elems = [1, 2, 3, 4]\<rparr> two_labels (Suc 0))))
    \<and> xs_of (class_layer \<lparr>shape = [2, 2], elems = [1, 2, 3, 4]\<rparr> two_labels 0) = []
    \<and> ys_of (class_layer \<lparr>shape = [2, 2], elems = [1, 2, 3, 4]\<rparr> two_labels 0) = []"
  using plot_tsne_fixed_classes [where TSNE = two_points and z_loc = "zeros [2, 3]"
      and w = results_world and m = 10 and c = 2,
      OF demo_run(1) demo_run(2) order_refl demo_run(3) order_refl
      demo_run(4) demo_run(5) demo_run(6) demo_run(7)]
    two_labels_classes(2)
  by simp

subsection \<open>The callers of \<open>plot_tsne\<close>\<close>

text \<open>
  Claim C7. Called without a name (\<open>name\<close> is \<open>None\<close>), \<open>mnist_test_tsne_ssvae\<close> behaves as
  if called with the name \<open>SS-VAE\<close>: once the encoder has returned, it is the call of
  \<open>plot_tsne\<close> on the encoder's locations, the labels of the test set and the name
  \<open>SS-VAE\<close>, and a run that completes saves the files named after \<open>SS-VAE\<close>. A name that is
  supplied is passed on as it is.
\<close>

theorem ssvae_default_name:
  "mnist_test_tsne_ssvae TSNE None ssvae test_loader w
      = mnist_test_tsne_ssvae TSNE (Some ''SS-VAE'') ssvae test_loader w
   \<and> (encoder_z (test_data ds) (test_labels ds) (ambient w) = (Inr (z_loc, z_scale), x') \<longrightarrow>
        mnist_test_tsne_ssvae TSNE None (Some encoder_z) (Some ds) w
          = plot_tsne TSNE z_loc (test_labels ds) (Some ''SS-VAE'') (w\<lparr>ambient := x'\<rparr>)
        \<and> mnist_test_tsne_ssvae TSNE (Some n) (Some encoder_z) (Some ds) w
          = plot_tsne TSNE z_loc (test_labels ds) (Some n) (w\<lparr>ambient := x'\<rparr>)
        \<and> (fst (mnist_test_tsne_ssvae TSNE None (Some encoder_z) (Some ds) w) = Inr () \<longrightarrow>
             saved_paths (new_events w (snd (mnist_test_tsne_ssvae TSNE None (Some encoder_z) (Some ds) w)))
               = map (class_path (Some ''SS-VAE'')) [0..<10] @ [aggregate_path (Some ''SS-VAE'')]))"
proof -
  have a: "mnist_test_tsne_ssvae TSNE None ssvae test_loader w
      = mnist_test_tsne_ssvae TSNE (Some ''SS-VAE'') ssvae test_loader w"
    by (simp add: mnist_test_tsne_ssvae_def)
  have b: "mnist_test_tsne_ssvae TSNE nm (Some encoder_z) (Some ds) w
          = plot_tsne TSNE z_loc (test_labels ds) (if nm = None then Some ''SS-VAE'' else nm)
              (w\<lparr>ambient := x'\<rparr>)"
    if "encoder_z (test_data ds) (test_labels ds) (ambient w) = (Inr (z_loc, z_scale), x')" for nm
    using that by (simp add: mnist_test_tsne_ssvae_def bind_io_def attr_def call_io_def Let_def)
  have c: "saved_paths (new_events w (snd (mnist_test_tsne_ssvae TSNE None (Some encoder_z) (Some ds) w)))
               = map (class_path (Some ''SS-VAE'')) [0..<10] @ [aggregate_path (Some ''SS-VAE'')]"
    if enc: "encoder_z (test_data ds) (test_labels ds) (ambient w) = (Inr (z_loc, z_scale), x')"
      and ok: "fst (mnist_test_tsne_ssvae TSNE None (Some encoder_z) (Some ds) w) = Inr ()"
  proof -
    have "fst (plot_tsne TSNE z_loc (test_labels ds) (Some ''SS-VAE'') (w\<lparr>ambient := x'\<rparr>)) = Inr ()"
      using ok b [OF enc, of None] by simp
    from plot_tsne_success_paths [OF this] show ?thesis
      using b [OF enc, of None] by (simp add: new_events_def)
  qed
  show ?thesis
    using a b [of None] b [of "Some n"] c by simp
qed

theorem ssvae_default_name_witness:
  "plain_encoder (test_data two_digits) (test_labels two_digits) (ambient results_world)
      = (Inr (zeros [2, 3], zeros [2, 3]), ())
   \<and> mnist_test_tsne_ssvae two_points None (Some plain_encoder) (Some two_digits) results_world
      = plot_tsne two_points (zeros [2, 3]) (test_labels two_digits) (Some ''SS-VAE'')
          (results_world\<lparr>ambient := ()\<rparr>)"
proof -
  have e: "plain_encoder (test_data two_digits) (test_labels two_digits) (ambient results_world)
      = (Inr (zeros [2, 3], zeros [2, 3]), ())"
    by (simp add: plain_encoder_def)
  show ?thesis
    using e ssvae_default_name [where TSNE = two_points and encoder_z = plain_encoder
        and ds = two_digits and w = results_world and z_loc = "zeros [2, 3]"
        and z_scale = "zeros [2, 3]" and x' = "()"]
    by blast
qed

subsection \<open>One iteration of the embedding plot\<close>

lemma tsne_class_split:
  "tsne_class z classes name ic fig w =
     (case class_figure z classes ic fig of
        Inl e \<Rightarrow> (Inl e, w)
      | Inr fig2 \<Rightarrow>
          (case savefig (class_path name ic) (Figure fig2) w of
             (Inl e, w') \<Rightarrow> (Inl e, w')
           | (Inr u, w') \<Rightarrow> (Inr fig2, w')))"
  by (simp add: tsne_class_paths class_figure_def bind_io_def pure_io_def return_io_def Let_def
      split: sum.splits prod.splits)

subsection \<open>Where the figures go\<close>

lemma for_io_preserves:
  assumes step: "\<And>i s v. i \<in> set is \<Longrightarrow> R v (snd (body i s v))"
    and refl: "\<And>v. R v v"
    and trans: "\<And>a b c. R a b \<Longrightarrow> R b c \<Longrightarrow> R a c"
  shows "R w (snd (for_io body is s w))"
  using step
proof (induction "is" arbitrary: s w)
  case Nil
  show ?case by (simp add: refl)
next
  case (Cons i "is")
  obtain r w1 where b: "body i s w = (r, w1)" by (cases "body i s w")
  have "R w (snd (body i s w))" by (rule Cons.prems) simp
  then have r1: "R w w1" using b by simp
  show ?case
  proof (cases r)
    case (Inl e)
    then show ?thesis using b r1 by simp
  next
    case (Inr s')
    have "R w1 (snd (for_io body is s' w1))"
      by (rule Cons.IH) (simp add: Cons.prems)
    then show ?thesis using b Inr r1 trans by simp
  qed
qed

lemma savefig_place:
  assumes "CHR ''/'' \<notin> set f" "f \<noteq> []" "f \<noteq> ''.''" "f \<noteq> ''..''"
    and "fs (snd (savefig (''./vae_results/'' @ f) pic v)) p \<noteq> fs v p"
  shows "p = [''vae_results'', f]"
  using assms(5) unfolding savefig_results [OF assms(1-4)]
  by (auto split: option.splits node.splits if_splits)

lemma tsne_class_place:
  assumes "CHR ''/'' \<notin> set (str_name name)" "ic < 10"
    and "fs (snd (tsne_class z classes name ic fig v)) p \<noteq> fs v p"
  shows "p = [''vae_results'', class_file name ic]"
proof (cases "class_figure z classes ic fig")
  case (Inl e)
  then show ?thesis using assms(3) by (simp add: tsne_class_split)
next
  case (Inr fig2)
  then have "fs (snd (savefig (''./vae_results/'' @ class_file name ic) (Figure fig2) v)) p \<noteq> fs v p"
    using assms(3) unfolding tsne_class_split class_path_def
    by (auto split: prod.splits sum.splits)
  then show ?thesis
    by (rule savefig_place [OF class_file_plain [OF assms(1,2)]])
qed

lemma tsne_loop_places:
  assumes name: "CHR ''/'' \<notin> set (str_name name)"
  shows "\<forall>p. fs (snd (for_io (tsne_class z classes name) [0..<10] fig (w :: 'x world))) p \<noteq> fs w p
      \<longrightarrow> (\<exists>ic<10. p = [''vae_results'', class_file name ic])"
proof (rule for_io_preserves
    [where R = "\<lambda>(a :: 'x world) (b :: 'x world).
        \<forall>p. fs b p \<noteq> fs a p \<longrightarrow> (\<exists>ic<10. p = [''vae_results'', class_file name ic])"])
  fix i :: nat and s :: figure and v :: "'x world"
  assume "i \<in> set [0..<10]"
  then have i: "i < 10" by simp
  show "\<forall>p. fs (snd (tsne_class z classes name i s v)) p \<noteq> fs v p
      \<longrightarrow> (\<exists>ic<10. p = [''vae_results'', class_file name ic])"
    using tsne_class_place [OF name i] i by blast
next
  fix v :: "'x world"
  show "\<forall>p. fs v p \<noteq> fs v p \<longrightarrow> (\<exists>ic<10. p = [''vae_results'', class_file name ic])"
    by simp
next
  fix a b c :: "'x world"
  assume "\<forall>p. fs b p \<noteq> fs a p \<longrightarrow> (\<exists>ic<10. p = [''vae_results'', class_file name ic])"
    "\<forall>p. fs c p \<noteq> fs b p \<longrightarrow> (\<exists>ic<10. p = [''vae_results'', class_file name ic])"
  then show "\<forall>p. fs c p \<noteq> fs a p \<longrightarrow> (\<exists>ic<10. p = [''vae_results'', class_file name ic])"
    by metis
qed

lemma plot_tsne_places:
  assumes name: "CHR ''/'' \<notin> set (str_name name)"
    and ch: "fs (snd (plot_tsne TSNE z_loc classes name w)) p \<noteq> fs w p"
  shows "(\<exists>ic<10. p = [''vae_results'', class_file name ic])
      \<or> p = [''vae_results'', aggregate_file name]"
proof -
  obtain rz x' where red: "TSNE 2 (Some 0) z_loc (ambient w) = (rz, x')"
    by (cases "TSNE 2 (Some 0) z_loc (ambient w)")
  let ?w1 = "w\<lparr>ambient := x'\<rparr>"
  have call: "call_io (TSNE 2 (Some 0) z_loc) w = (rz, ?w1)"
    using red by (simp add: call_io_def)
  show ?thesis
  proof (cases rz)
    case (Inl e)
    then show ?thesis using ch call by (simp add: plot_tsne_paths bind_io_def)
  next
    case (Inr z)
    obtain r2 w2 where loop: "for_io (tsne_class z classes name) [0..<10] new_figure ?w1 = (r2, w2)"
      by (cases "for_io (tsne_class z classes name) [0..<10] new_figure ?w1")
    have l: "\<forall>p. fs w2 p \<noteq> fs w p \<longrightarrow> (\<exists>ic<10. p = [''vae_results'', class_file name ic])"
      using tsne_loop_places [OF name, of z classes new_figure ?w1] loop by simp
    show ?thesis
    proof (cases r2)
      case (Inl e)
      then have "snd (plot_tsne TSNE z_loc classes name w) = w2"
        using call Inr loop by (simp add: plot_tsne_paths bind_io_def)
      then show ?thesis using ch l by simp
    next
      case (Inr fig)
      then have eq: "plot_tsne TSNE z_loc classes name w
          = savefig (''./vae_results/'' @ aggregate_file name) (Figure fig) w2"
        using call \<open>rz = Inr z\<close> loop
        by (simp add: plot_tsne_paths bind_io_def aggregate_path_def)
      show ?thesis
      proof (cases "fs (snd (plot_tsne TSNE z_loc classes name w)) p = fs w2 p")
        case True
        then show ?thesis using ch l by simp
      next
        case False
        then have "p = [''vae_results'', aggregate_file name]"
          unfolding eq by (rule savefig_place [OF aggregate_file_plain [OF name]])
        then show ?thesis by simp
      qed
    qed
  qed
qed

lemma savefig_written:
  assumes "CHR ''/'' \<notin> set f" "f \<noteq> []" "f \<noteq> ''.''" "f \<noteq> ''..''"
    and "savefig (''./vae_results/'' @ f) pic v = (Inr u, v')"
  shows "fs v' = (fs v)([''vae_results'', f] \<mapsto> File pic)"
  using assms(5) unfolding savefig_results [OF assms(1-4)]
  by (auto split: option.splits node.splits if_splits)

lemma tsne_class_written:
  assumes name: "CHR ''/'' \<notin> set (str_name name)" and ic: "ic < 10"
    and run: "tsne_class z classes name ic fig v = (Inr fig', v')"
  shows "fs v' = (fs v)([''vae_results'', class_file name ic] \<mapsto> File (Figure fig'))"
proof (cases "class_figure z classes ic fig")
  case (Inl e)
  then show ?thesis using run by (simp add: tsne_class_split)
next
  case (Inr fig2)
  then have "\<exists>u. savefig (''./vae_results/'' @ class_file name ic) (Figure fig2) v = (Inr u, v')"
      and "fig' = fig2"
    using run unfolding tsne_class_split class_path_def
    by (auto split: prod.splits sum.splits)
  then show ?thesis
    using savefig_written [OF class_file_plain [OF name ic]] by blast
qed

lemma tsne_loop_written:
  assumes name: "CHR ''/'' \<notin> set (str_name name)"
    and k: "k \<le> 10"
    and run: "for_io (tsne_class z classes name) [0..<k] fig w = (Inr fig', w')"
  shows "\<forall>ic<k. \<exists>pic. fs w' [''vae_results'', class_file name ic] = Some (File (Figure pic))"
  using k run
proof (induction k arbitrary: fig' w')
  case 0
  show ?case by simp
next
  case (Suc k)
  obtain r1 w1 where pre: "for_io (tsne_class z classes name) [0..<k] fig w = (r1, w1)"
    by (cases "for_io (tsne_class z classes name) [0..<k] fig w")
  show ?case
  proof (cases r1)
    case (Inl e)
    then show ?thesis using Suc.prems(2) pre by (simp add: for_io_snoc)
  next
    case (Inr fig1)
    then have step: "tsne_class z classes name k fig1 w1 = (Inr fig', w')"
      using Suc.prems(2) pre by (simp add: for_io_snoc)
    have k: "k < 10" "k \<le> 10" using Suc.prems(1) by simp_all
    have old: "\<forall>ic<k. \<exists>pic. fs w1 [''vae_results'', class_file name ic] = Some (File (Figure pic))"
      using Suc.IH [OF k(2)] pre Inr by simp
    have new: "fs w' = (fs w1)([''vae_results'', class_file name k] \<mapsto> File (Figure fig'))"
      by (rule tsne_class_written [OF name k(1) step])
    show ?thesis
    proof (intro allI impI)
      fix ic assume "ic < Suc k"
      then consider "ic = k" | "ic < k" by linarith
      then show "\<exists>pic. fs w' [''vae_results'', class_file name ic] = Some (File (Figure pic))"
      proof cases
        case 1
        then show ?thesis using new by simp
      next
        case 2
        then have "class_file name ic \<noteq> class_file name k"
          using class_file_inj [of ic k name] k(1) by auto
        then show ?thesis using new old 2 by simp
      qed
    qed
  qed
qed

lemma plot_tsne_written:
  assumes name: "CHR ''/'' \<notin> set (str_name name)"
    and ok: "fst (plot_tsne TSNE z_loc classes name w) = Inr ()"
  shows "(\<forall>ic<10. \<exists>pic. fs (snd (plot_tsne TSNE z_loc classes name w))
              [''vae_results'', class_file name ic] = Some (File (Figure pic)))
    \<and> (\<exists>pic. fs (snd (plot_tsne TSNE z_loc classes name w))
              [''vae_results'', aggregate_file name] = Some (File (Figure pic)))"
proof -
  obtain rz x' where red: "TSNE 2 (Some 0) z_loc (ambient w) = (rz, x')"
    by (cases "TSNE 2 (Some 0) z_loc (ambient w)")
  let ?w1 = "w\<lparr>ambient := x'\<rparr>"
  have call: "call_io (TSNE 2 (Some 0) z_loc) w = (rz, ?w1)"
    using red by (simp add: call_io_def)
  show ?thesis
  proof (cases rz)
    case (Inl e)
    then show ?thesis using ok call by (simp add: plot_tsne_paths bind_io_def)
  next
    case (Inr z)
    obtain r2 w2 where loop: "for_io (tsne_class z classes name) [0..<10] new_figure ?w1 = (r2, w2)"
      by (cases "for_io (tsne_class z classes name) [0..<10] new_figure ?w1")
    show ?thesis
    proof (cases r2)
      case (Inl e)
      then show ?thesis using ok call \<open>rz = Inr z\<close> loop by (simp add: plot_tsne_paths bind_io_def)
    next
      case (Inr fig)
      then have eq: "plot_tsne TSNE z_loc classes name w
          = savefig (''./vae_results/'' @ aggregate_file name) (Figure fig) w2"
        using call \<open>rz = Inr z\<close> loop
        by (simp add: plot_tsne_paths bind_io_def aggregate_path_def)
      obtain w3 where sv: "savefig (''./vae_results/'' @ aggregate_file name) (Figure fig) w2 = (Inr (), w3)"
        using ok eq by (cases "savefig (''./vae_results/'' @ aggregate_file name) (Figure fig) w2") simp
      have new: "fs w3 = (fs w2)([''vae_results'', aggregate_file name] \<mapsto> File (Figure fig))"
        by (rule savefig_written [OF aggregate_file_plain [OF name] sv])
      have old: "\<forall>ic<10. \<exists>pic. fs w2 [''vae_results'', class_file name ic] = Some (File (Figure pic))"
        using tsne_loop_written [OF name order_refl] loop Inr by blast
      have "\<forall>ic<10. \<exists>pic. fs w3 [''vae_results'', class_file name ic] = Some (File (Figure pic))"
        using old new class_file_not_aggregate [of name] by simp
      moreover have "\<exists>pic. fs w3 [''vae_results'', aggregate_file name] = Some (File (Figure pic))"
        using new by simp
      ultimately show ?thesis using eq sv by simp
    qed
  qed
qed

lemma plot_llk_saved:
  "saved_paths (new_events w (snd (plot_llk tr te w)))
     = (if fst (plot_llk tr te w) = Inr () then [''./vae_results/test_elbo_vae.png''] else [])"
  by (simp add: plot_llk_results new_events_def split: option.splits node.splits)

lemma plot_llk_places:
  "fs (snd (plot_llk tr te w)) p \<noteq> fs w p \<Longrightarrow>
     p = [''vae_results''] \<or> p = [''vae_results'', ''test_elbo_vae.png'']"
  by (auto simp: plot_llk_results split: option.splits node.splits if_splits)

lemma plot_llk_written:
  "fst (plot_llk tr te w) = Inr () \<Longrightarrow>
     fs (snd (plot_llk tr te w)) [''vae_results'', ''test_elbo_vae.png'']
       = Some (File (Chart (llk_grid tr te)))"
  by (auto simp: plot_llk_results split: option.splits node.splits if_splits)

lemma plot_tsne_prefix:
  "\<exists>j\<le>11. saved_paths (new_events w (snd (plot_tsne TSNE z_loc classes name w)))
     = take j (map (class_path name) [0..<10] @ [aggregate_path name])"
proof -
  obtain r w' where run: "plot_tsne TSNE z_loc classes name w = (r, w')"
    by (cases "plot_tsne TSNE z_loc classes name w")
  from plot_tsne_saved [OF run] obtain es j
    where "events w' = events w @ es" "j \<le> 11"
      "saved_paths es = take j (map (class_path name) [0..<10] @ [aggregate_path name])"
    by blast
  then have "j \<le> 11 \<and> saved_paths (new_events w (snd (plot_tsne TSNE z_loc classes name w)))
      = take j (map (class_path name) [0..<10] @ [aggregate_path name])"
    using run by (simp add: new_events_def)
  then show ?thesis by blast
qed

lemma outside_run:
  "fst (plot_tsne two_points (zeros [2, 3]) two_labels (Some ''../x'') results_world) = Inr ()"
  "hd (saved_paths (new_events results_world
        (snd (plot_tsne two_points (zeros [2, 3]) two_labels (Some ''../x'') results_world))))
     = ''./vae_results/../x_embedding_0.png''"
  "fs results_world [''x_embedding_0.png''] = None"
  "fs (snd (plot_tsne two_points (zeros [2, 3]) two_labels (Some ''../x'') results_world))
      [''x_embedding_0.png'']
     = Some (File (Figure (figure_upto \<lparr>shape = [2, 2], elems = [1, 2, 3, 4]\<rparr> two_labels 1)))"
  "fs (snd (plot_tsne two_points (zeros [2, 3]) two_labels (Some ''../x'') results_world))
      [''vae_results'', ''x_embedding_0.png''] = None"
  "fs (snd (plot_tsne two_points (zeros [2, 3]) two_labels (Some ''../x'') results_world))
      [''vae_results'', ''../x_embedding_0.png''] = None"
  by code_simp+

text \<open>
  Claim C6, as amended. The claim says that all files are written under \<open>./vae_results/\<close>.
  What is fixed is the string handed to \<open>savefig\<close>: \<open>plot_tsne\<close> saves at
  \<open>./vae_results/<name>_embedding_<ic>.png\<close> for \<open>ic = 0..9\<close> in this order and then at
  \<open>./vae_results/<name>_embedding.png\<close>, where \<open><name>\<close> is \<open>str(name)\<close>, the supplied name
  itself when it is a string; a run that fails on the way has saved an initial part of
  this list, a run that completes all of it. \<open>plot_llk\<close> saves at
  \<open>./vae_results/test_elbo_vae.png\<close> when it completes and nowhere otherwise. The name is
  not checked, so where the files of \<open>plot_tsne\<close> land depends on it. For a name that
  holds no slash they are in \<open>vae_results\<close>: a run changes nothing but the files of these
  names there, and after a run that completes all eleven are there. \<open>plot_llk\<close> changes
  nothing but the directory \<open>vae_results\<close> and its one file in it, which is there after a
  run that completes. The counterexample below is a run under the name \<open>../x\<close>, whose
  files land beside \<open>vae_results\<close>, not in it.
\<close>

theorem artifact_paths:
  "(\<exists>j\<le>11. saved_paths (new_events w (snd (plot_tsne TSNE z_loc classes name w)))
        = take j (map (\<lambda>ic. ''./vae_results/'' @ str_name name @ ''_embedding_'' @ str_nat ic @ ''.png'')
                    [0..<10]
                  @ [''./vae_results/'' @ str_name name @ ''_embedding.png'']))
   \<and> (fst (plot_tsne TSNE z_loc classes name w) = Inr () \<longrightarrow>
        saved_paths (new_events w (snd (plot_tsne TSNE z_loc classes name w)))
          = map (\<lambda>ic. ''./vae_results/'' @ str_name name @ ''_embedding_'' @ str_nat ic @ ''.png'')
              [0..<10]
            @ [''./vae_results/'' @ str_name name @ ''_embedding.png''])
   \<and> str_name (Some n) = n
   \<and> (CHR ''/'' \<notin> set (str_name name) \<longrightarrow>
        (\<forall>p. fs (snd (plot_tsne TSNE z_loc classes name w)) p \<noteq> fs w p \<longrightarrow>
           (\<exists>ic<10. p = [''vae_results'', str_name name @ ''_embedding_'' @ str_nat ic @ ''.png''])
           \<or> p = [''vae_results'', str_name name @ ''_embedding.png''])
        \<and> (fst (plot_tsne TSNE z_loc classes name w) = Inr () \<longrightarrow>
             (\<forall>ic<10. \<exists>pic. fs (snd (plot_tsne TSNE z_loc classes name w))
                  [''vae_results'', str_name name @ ''_embedding_'' @ str_nat ic @ ''.png'']
                    = Some (File (Figure pic)))
             \<and> (\<exists>pic. fs (snd (plot_tsne TSNE z_loc classes name w))
                  [''vae_results'', str_name name @ ''_embedding.png''] = Some (File (Figure pic)))))
   \<and> saved_paths (new_events w (snd (plot_llk train_elbo test_elbo w)))
        = (if fst (plot_llk train_elbo test_elbo w) = Inr ()
           then [''./vae_results/test_elbo_vae.png''] else [])
   \<and> (\<forall>p. fs (snd (plot_llk train_elbo test_elbo w)) p \<noteq> fs w p \<longrightarrow>
         p = [''vae_results''] \<or> p = [''vae_results'', ''test_elbo_vae.png''])
   \<and> (fst (plot_llk train_elbo test_elbo w) = Inr () \<longrightarrow>
         fs (snd (plot_llk train_elbo test_elbo w)) [''vae_results'', ''test_elbo_vae.png'']
           = Some (File (Chart (llk_grid train_elbo test_elbo))))"
proof -
  have a: "\<exists>j\<le>11. saved_paths (new_events w (snd (plot_tsne TSNE z_loc classes name w)))
        = take j (map (\<lambda>ic. ''./vae_results/'' @ str_name name @ ''_embedding_'' @ str_nat ic @ ''.png'')
                    [0..<10]
                  @ [''./vae_results/'' @ str_name name @ ''_embedding.png''])"
    using plot_tsne_prefix [of w TSNE z_loc classes name]
    unfolding class_path_def class_file_def aggregate_path_def aggregate_file_def .
  have a': "saved_paths (new_events w (snd (plot_tsne TSNE z_loc classes name w)))
          = map (\<lambda>ic. ''./vae_results/'' @ str_name name @ ''_embedding_'' @ str_nat ic @ ''.png'')
              [0..<10]
            @ [''./vae_results/'' @ str_name name @ ''_embedding.png'']"
    if "fst (plot_tsne TSNE z_loc classes name w) = Inr ()"
    using plot_tsne_success_paths [OF that]
    unfolding class_path_def class_file_def aggregate_path_def aggregate_file_def .
  have b: "str_name (Some n) = n"
    by (simp add: str_name_def)
  have c: "(\<exists>ic<10. p = [''vae_results'', str_name name @ ''_embedding_'' @ str_nat ic @ ''.png''])
           \<or> p = [''vae_results'', str_name name @ ''_embedding.png'']"
    if "CHR ''/'' \<notin> set (str_name name)"
      "fs (snd (plot_tsne TSNE z_loc classes name w)) p \<noteq> fs w p" for p
    using plot_tsne_places [OF that] unfolding class_file_def aggregate_file_def .
  have c': "(\<forall>ic<10. \<exists>pic. fs (snd (plot_tsne TSNE z_loc classes name w))
                  [''vae_results'', str_name name @ ''_embedding_'' @ str_nat ic @ ''.png'']
                    = Some (File (Figure pic)))
             \<and> (\<exists>pic. fs (snd (plot_tsne TSNE z_loc classes name w))
                  [''vae_results'', str_name name @ ''_embedding.png''] = Some (File (Figure pic)))"
    if "CHR ''/'' \<notin> set (str_name name)" "fst (plot_tsne TSNE z_loc classes name w) = Inr ()"
    using plot_tsne_written [OF that] unfolding class_file_def aggregate_file_def .
  have d: "saved_paths (new_events w (snd (plot_llk train_elbo test_elbo w)))
        = (if fst (plot_llk train_elbo test_elbo w) = Inr ()
           then [''./vae_results/test_elbo_vae.png''] else [])"
    by (rule plot_llk_saved)
  have e: "p = [''vae_results''] \<or> p = [''vae_results'', ''test_elbo_vae.png'']"
    if "fs (snd (plot_llk train_elbo test_elbo w)) p \<noteq> fs w p" for p
    using plot_llk_places [OF that] .
  have e': "fs (snd (plot_llk train_elbo test_elbo w)) [''vae_results'', ''test_elbo_vae.png'']
           = Some (File (Chart (llk_grid train_elbo test_elbo)))"
    if "fst (plot_llk train_elbo test_elbo w) = Inr ()"
    using plot_llk_written [OF that] .
  show ?thesis
    using a a' b c c' d e e' by blast
qed

theorem artifact_paths_witness:
  "CHR ''/'' \<notin> set (str_name (Some ''VAE''))
   \<and> fst (plot_tsne two_points (zeros [2, 3]) two_labels (Some ''VAE'') results_world) = Inr ()
   \<and> saved_paths (new_events results_world
        (snd (plot_tsne two_points (zeros [2, 3]) two_labels (Some ''VAE'') results_world)))
      = map (\<lambda>ic. ''./vae_results/'' @ str_name (Some ''VAE'') @ ''_embedding_'' @ str_nat ic @ ''.png'')
          [0..<10]
        @ [''./vae_results/'' @ str_name (Some ''VAE'') @ ''_embedding.png'']
   \<and> str_name (Some ''VAE'') = ''VAE''
   \<and> (\<exists>pic. fs (snd (plot_tsne two_points (zeros [2, 3]) two_labels (Some ''VAE'') results_world))
          [''vae_results'', str_name (Some ''VAE'') @ ''_embedding.png''] = Some (File (Figure pic)))"
proof -
  have n: "CHR ''/'' \<notin> set (str_name (Some ''VAE''))"
    by (simp add: str_name_def)
  show ?thesis
    using n demo_run_ok
      artifact_paths [of results_world two_points "zeros [2, 3]" two_labels "Some ''VAE''"
        "''VAE''" "[(0, 1)]" "[(0, 2)]"]
    by blast
qed

theorem artifact_paths_counterexample:
  "fst (plot_tsne two_points (zeros [2, 3]) two_labels (Some ''../x'') results_world) = Inr ()
   \<and> hd (saved_paths (new_events results_world
        (snd (plot_tsne two_points (zeros [2, 3]) two_labels (Some ''../x'') results_world))))
      = ''./vae_results/../x_embedding_0.png''
   \<and> fs results_world [''x_embedding_0.png''] = None
   \<and> fs (snd (plot_tsne two_points (zeros [2, 3]) two_labels (Some ''../x'') results_world))
        [''x_embedding_0.png'']
      = Some (File (Figure (figure_upto \<lparr>shape = [2, 2], elems = [1, 2, 3, 4]\<rparr> two_labels 1)))
   \<and> fs (snd (plot_tsne two_points (zeros [2, 3]) two_labels (Some ''../x'') results_world))
        [''vae_results'', ''x_embedding_0.png''] = None
   \<and> fs (snd (plot_tsne two_points (zeros [2, 3]) two_labels (Some ''../x'') results_world))
        [''vae_results'', ''../x_embedding_0.png''] = None"
  using outside_run by blast

subsection \<open>Exceptions\<close>
























end
